theory Spec2Isabelle
  imports Complex_Main "HOL-Library.Monad_Syntax"
begin

section \<open>JavaScript values\<close>

text \<open>
  Instants are JavaScript time values: integral milliseconds, as \<open>Date.getTime()\<close>
  returns them, read in the local time zone (a fixed offset, folded into the value).
  A \<open>Date\<close> of the model is a valid date; the Invalid Date appears only where
  \<open>new Date(string)\<close> is evaluated, as \<open>None\<close>.
\<close>

type_synonym Date = int

text \<open>
  A JavaScript number is idealised as an exact rational or \<open>NaN\<close>: the rounding of IEEE
  doubles and the infinities are outside the model.  The model and the program agree
  where every operand and every product is a double, as in \<open>25 * 2\<close> and
  \<open>2 * 2.5 * 10\<close>; they can differ elsewhere: \<open>25 * 2.3\<close> is \<open>57.49999999999999\<close> in
  the program, which \<open>Math.round\<close> takes to 57, and \<open>57.5\<close> here, which it takes to 58.
  No statement below evaluates the formulas at such an input.
\<close>

datatype number = NaN | Num rat

text \<open>\<open>Math.round\<close>: the nearest integer, a tie going up.\<close>

fun Math_round :: "number \<Rightarrow> number" where
  "Math_round NaN = NaN"
| "Math_round (Num x) = Num (of_int \<lfloor>x + 1 / 2\<rfloor>)"

text \<open>The operator \<open>*\<close> on numbers, as the exact product.\<close>

fun times :: "number \<Rightarrow> number \<Rightarrow> number" where
  "times (Num a) (Num b) = Num (a * b)"
| "times _ _ = NaN"

text \<open>
  What \<open>table[key]\<close> yields on an object literal whose own properties are numbers: an
  own property, else a member inherited from \<open>Object.prototype\<close> (a function, or the
  prototype object itself for \<open>__proto__\<close>), else \<open>undefined\<close>.
\<close>

datatype propertyValue = Undefined | NumberValue rat | InheritedValue

definition objectPrototypeNames :: "string list" where
  "objectPrototypeNames =
     [''constructor'', ''__defineGetter__'', ''__defineSetter__'', ''hasOwnProperty'',
      ''__lookupGetter__'', ''__lookupSetter__'', ''isPrototypeOf'',
      ''propertyIsEnumerable'', ''toString'', ''valueOf'', ''__proto__'',
      ''toLocaleString'']"

definition getProperty :: "(string \<times> rat) list \<Rightarrow> string \<Rightarrow> propertyValue" where
  "getProperty table key =
     (case map_of table key of
        Some v \<Rightarrow> NumberValue v
      | None \<Rightarrow> if key \<in> set objectPrototypeNames then InheritedValue else Undefined)"

text \<open>\<open>v || d\<close>: \<open>undefined\<close> and \<open>0\<close> are falsy, functions and objects are truthy.\<close>

fun orDefault :: "propertyValue \<Rightarrow> rat \<Rightarrow> propertyValue" where
  "orDefault Undefined d = NumberValue d"
| "orDefault (NumberValue v) d = (if v = 0 then NumberValue d else NumberValue v)"
| "orDefault InheritedValue d = InheritedValue"

text \<open>
  The conversion that \<open>*\<close> applies to an operand.  A function or plain object converts
  through its string form, which is not a numeric literal.
\<close>

fun toNumber :: "propertyValue \<Rightarrow> number" where
  "toNumber Undefined = NaN"
| "toNumber (NumberValue v) = Num v"
| "toNumber InheritedValue = NaN"

subsection \<open>Numeric strings\<close>

definition isDigit :: "char \<Rightarrow> bool" where
  "isDigit c \<longleftrightarrow> c \<in> set ''0123456789''"

definition digitValue :: "char \<Rightarrow> nat" where
  "digitValue c = of_char c - 48"

definition digitsValue :: "string \<Rightarrow> nat" where
  "digitsValue ds = foldl (\<lambda>n c. 10 * n + digitValue c) 0 ds"

definition isWhiteSpace :: "char \<Rightarrow> bool" where
  "isWhiteSpace c \<longleftrightarrow>
     c \<in> set [CHR '' '', CHR 0x09, CHR 0x0A, CHR 0x0B, CHR 0x0C, CHR 0x0D]"

text \<open>The exponent of a decimal literal: \<open>e\<close> or \<open>E\<close>, a sign, digits; \<open>0\<close> when the
  text does not continue with one.\<close>

definition exponentPart :: "string \<Rightarrow> int" where
  "exponentPart s =
     (case s of
        c # r \<Rightarrow>
          if c = CHR ''e'' \<or> c = CHR ''E'' then
            (case r of
               d # r' \<Rightarrow>
                 if d = CHR ''-'' then - int (digitsValue (takeWhile isDigit r'))
                 else if d = CHR ''+'' then int (digitsValue (takeWhile isDigit r'))
                 else int (digitsValue (takeWhile isDigit r))
             | [] \<Rightarrow> 0)
          else 0
      | [] \<Rightarrow> 0)"

text \<open>
  The builtin \<open>parseFloat\<close> on decimal literals: leading white space is skipped, the
  longest prefix that is a literal (sign, digits, fraction, exponent) is read, the rest
  is ignored, and a text with no digit gives \<open>NaN\<close>.  Three limits: the result is the
  exact value of the literal, where the builtin returns the nearest double; only the
  ASCII white space is skipped, where the builtin also skips the other Unicode white
  space (a no-break space before the digits gives \<open>NaN\<close> here); and the literal
  \<open>Infinity\<close> and literals beyond the range of doubles are outside the model.  The
  hour strings that the routes store are plain decimals with at most one fractional
  digit, and the statements below leave \<open>parseFloat\<close> unevaluated except at such
  strings.
\<close>

definition parseFloat :: "string \<Rightarrow> number" where
  "parseFloat s =
     (let s1 = dropWhile isWhiteSpace s;
          negative = (case s1 of c # _ \<Rightarrow> c = CHR ''-'' | [] \<Rightarrow> False);
          s2 = (case s1 of
                  c # r \<Rightarrow> if c = CHR ''-'' \<or> c = CHR ''+'' then r else s1
                | [] \<Rightarrow> s1);
          intDigits = takeWhile isDigit s2;
          s3 = dropWhile isDigit s2;
          fracDigits = (case s3 of
                          c # r \<Rightarrow> if c = CHR ''.'' then takeWhile isDigit r else []
                        | [] \<Rightarrow> []);
          s4 = (case s3 of
                  c # r \<Rightarrow> if c = CHR ''.'' then dropWhile isDigit r else s3
                | [] \<Rightarrow> s3);
          mantissa = of_nat (digitsValue intDigits)
                     + of_nat (digitsValue fracDigits) / 10 ^ length fracDigits;
          e = exponentPart s4;
          magnitude = (if e < 0 then mantissa / 10 ^ nat (- e) else mantissa * 10 ^ nat e)
      in if intDigits = [] \<and> fracDigits = [] then NaN
         else Num (if negative then - magnitude else magnitude))"

function showNat :: "nat \<Rightarrow> string" where
  "showNat n =
     (if n < 10 then [char_of (48 + n)]
      else showNat (n div 10) @ [char_of (48 + n mod 10)])"
  by pat_completeness auto
termination
  by (relation "measure id") auto

declare showNat.simps [simp del]

text \<open>
  \<open>Number.prototype.toString\<close> on the numbers that pass validation, which are multiples
  of one tenth: the integer part and, unless it is zero, one fractional digit.
\<close>

definition Number_toString :: "rat \<Rightarrow> string" where
  "Number_toString x =
     (let tenths = \<lfloor>\<bar>x\<bar> * 10\<rfloor>;
          whole = nat (tenths div 10);
          tenth = nat (tenths mod 10)
      in (if x < 0 then ''-'' else '''') @ showNat whole
         @ (if tenth = 0 then '''' else ''.'' @ showNat tenth))"

subsection \<open>Objects of unknown shape\<close>

text \<open>
  Request bodies and the \<open>any\<close>-typed objects of the route handlers: a key maps to a
  value, and a key that is absent reads as \<open>undefined\<close>.  \<open>JDate None\<close> is the Invalid
  Date.
\<close>

datatype jsvalue = JNull | JBoolean bool | JNumber rat | JString string | JDate "Date option"

type_synonym jsobject = "string \<Rightarrow> jsvalue option"

section \<open>Reward formulas (\<open>MemStorage.calculateXPReward\<close>, \<open>calculateEUReward\<close>)\<close>

definition basePriorityMultipliers :: "(string \<times> rat) list" where
  "basePriorityMultipliers =
     [(''low'', 10), (''medium'', 15), (''high'', 25), (''urgent'', 40)]"

definition calculateXPReward :: "string \<Rightarrow> number \<Rightarrow> number" where
  "calculateXPReward priority hours =
     (let baseXP = orDefault (getProperty basePriorityMultipliers priority) 15
      in Math_round (times (toNumber baseXP) hours))"

definition domainMultipliers :: "(string \<times> rat) list" where
  "domainMultipliers =
     [(''academic'', 1), (''fitness'', 5 / 2), (''creative'', 4 / 5), (''social'', 6 / 5),
      (''maintenance'', 3 / 5)]"

definition calculateEUReward :: "string \<Rightarrow> number \<Rightarrow> number" where
  "calculateEUReward domain hours =
     (let multiplier = orDefault (getProperty domainMultipliers domain) 1
      in Math_round (times (times hours (toNumber multiplier)) (Num 10)))"

section \<open>Shared schema (\<open>shared/schema.ts\<close>)\<close>

text \<open>
  Numeric columns are strings on the TypeScript side.  A nullable column is an
  \<open>option\<close>.  Of the events, the fields that the calendar views read.
\<close>

record Event =
  id' :: string
  startTime :: Date
  endTime :: Date

text \<open>
  \<open>InsertTask\<close>: the output type of \<open>insertTaskSchema\<close>.  \<open>None\<close> stands for a key
  that is absent or \<open>null\<close>; the only reader, \<open>createTask\<close>, treats the two alike.
\<close>

record InsertTask =
  userId :: string
  title :: string
  description :: "string option"
  domain :: string
  priority :: "string option"
  estimatedHours :: "string option"
  actualHours :: "string option"
  dueDate :: "Date option"

text \<open>
  \<open>UpdateTask\<close>: the output type of \<open>updateTaskSchema\<close>.  Every key is optional
  (\<open>None\<close>: absent); a nullable column may also be present with the value \<open>null\<close>
  (\<open>Some None\<close>).  The reward columns are not part of the type.
\<close>

record UpdateTask =
  title :: "string option"
  description :: "string option option"
  domain :: "string option"
  priority :: "string option"
  estimatedHours :: "string option"
  actualHours :: "string option option"
  isCompleted :: "bool option"
  completedAt :: "Date option option"
  dueDate :: "Date option option"

record Task =
  id' :: string
  userId :: string
  title :: string
  description :: "string option"
  domain :: string
  priority :: string
  estimatedHours :: string
  actualHours :: "string option"
  xpReward :: number
  euReward :: number
  isCompleted :: bool
  completedAt :: "Date option"
  dueDate :: "Date option"
  createdAt :: Date
  updatedAt :: Date

subsection \<open>Validators\<close>

text \<open>
  A validator reads the value under a key (\<open>None\<close>: the key is absent) and returns the
  parsed value, or \<open>None\<close> where zod reports an issue.  An object schema strips the
  keys it does not declare.
\<close>

definition z_string :: "jsvalue option \<Rightarrow> string option" where
  "z_string v = (case v of Some (JString s) \<Rightarrow> Some s | _ \<Rightarrow> None)"

definition z_boolean :: "jsvalue option \<Rightarrow> bool option" where
  "z_boolean v = (case v of Some (JBoolean b) \<Rightarrow> Some b | _ \<Rightarrow> None)"

text \<open>\<open>z.date()\<close> accepts a \<open>Date\<close> object that is not the Invalid Date.\<close>

definition z_date :: "jsvalue option \<Rightarrow> Date option" where
  "z_date v = (case v of Some (JDate (Some d)) \<Rightarrow> Some d | _ \<Rightarrow> None)"

text \<open>\<open>z.number().min(lo).max(hi).multipleOf(step)\<close>\<close>

definition z_number :: "rat \<Rightarrow> rat \<Rightarrow> rat \<Rightarrow> jsvalue option \<Rightarrow> rat option" where
  "z_number lo hi step v =
     (case v of
        Some (JNumber x) \<Rightarrow>
          if lo \<le> x \<and> x \<le> hi \<and> of_int \<lfloor>x / step\<rfloor> = x / step then Some x else None
      | _ \<Rightarrow> None)"

definition z_optional ::
  "(jsvalue option \<Rightarrow> 'a option) \<Rightarrow> jsvalue option \<Rightarrow> 'a option option" where
  "z_optional p v = (case v of None \<Rightarrow> Some None | Some _ \<Rightarrow> map_option Some (p v))"

definition z_nullable ::
  "(jsvalue option \<Rightarrow> 'a option) \<Rightarrow> jsvalue option \<Rightarrow> 'a option option" where
  "z_nullable p v = (case v of Some JNull \<Rightarrow> Some None | _ \<Rightarrow> map_option Some (p v))"

definition nullish :: "'a option option \<Rightarrow> 'a option" where
  "nullish v = (case v of Some (Some x) \<Rightarrow> Some x | _ \<Rightarrow> None)"

text \<open>
  \<open>insertTaskSchema\<close>: the insert schema of the table without \<open>id\<close>, \<open>xpReward\<close>,
  \<open>euReward\<close>, \<open>isCompleted\<close>, \<open>completedAt\<close>, \<open>createdAt\<close>, \<open>updatedAt\<close>.  A column
  that is nullable or has a default is optional.
\<close>

definition insertTaskSchema_parse :: "jsobject \<Rightarrow> InsertTask option" where
  "insertTaskSchema_parse obj =
     do {
       userId \<leftarrow> z_string (obj ''userId'');
       title \<leftarrow> z_string (obj ''title'');
       description \<leftarrow> z_optional (z_nullable z_string) (obj ''description'');
       domain \<leftarrow> z_string (obj ''domain'');
       priority \<leftarrow> z_optional z_string (obj ''priority'');
       estimatedHours \<leftarrow> z_optional z_string (obj ''estimatedHours'');
       actualHours \<leftarrow> z_optional (z_nullable z_string) (obj ''actualHours'');
       dueDate \<leftarrow> z_optional (z_nullable z_date) (obj ''dueDate'');
       Some \<lparr>InsertTask.userId = userId, InsertTask.title = title,
             InsertTask.description = nullish description, InsertTask.domain = domain,
             InsertTask.priority = priority, InsertTask.estimatedHours = estimatedHours,
             InsertTask.actualHours = nullish actualHours,
             InsertTask.dueDate = nullish dueDate\<rparr>
     }"

text \<open>
  \<open>updateTaskSchema\<close>: the insert schema without \<open>id\<close>, \<open>userId\<close>, \<open>xpReward\<close>,
  \<open>euReward\<close>, \<open>createdAt\<close>, \<open>updatedAt\<close>, every remaining key optional.
\<close>

definition updateTaskSchema_parse :: "jsobject \<Rightarrow> UpdateTask option" where
  "updateTaskSchema_parse obj =
     do {
       title \<leftarrow> z_optional z_string (obj ''title'');
       description \<leftarrow> z_optional (z_nullable z_string) (obj ''description'');
       domain \<leftarrow> z_optional z_string (obj ''domain'');
       priority \<leftarrow> z_optional z_string (obj ''priority'');
       estimatedHours \<leftarrow> z_optional z_string (obj ''estimatedHours'');
       actualHours \<leftarrow> z_optional (z_nullable z_string) (obj ''actualHours'');
       isCompleted \<leftarrow> z_optional z_boolean (obj ''isCompleted'');
       completedAt \<leftarrow> z_optional (z_nullable z_date) (obj ''completedAt'');
       dueDate \<leftarrow> z_optional (z_nullable z_date) (obj ''dueDate'');
       Some \<lparr>UpdateTask.title = title, UpdateTask.description = description,
             UpdateTask.domain = domain, UpdateTask.priority = priority,
             UpdateTask.estimatedHours = estimatedHours,
             UpdateTask.actualHours = actualHours, UpdateTask.isCompleted = isCompleted,
             UpdateTask.completedAt = completedAt, UpdateTask.dueDate = dueDate\<rparr>
     }"

text \<open>
  \<open>clientTaskSchema\<close>: \<open>insertTaskSchema\<close> with \<open>estimatedHours\<close> a number and
  \<open>dueDate\<close> a string, without \<open>userId\<close>.  Its output is spread into an \<open>any\<close>-typed
  object, so it stays an object here: the input restricted to the declared keys.
\<close>

definition clientTaskKeys :: "string list" where
  "clientTaskKeys =
     [''title'', ''description'', ''domain'', ''priority'', ''estimatedHours'',
      ''actualHours'', ''dueDate'']"

definition clientTaskSchema_parse :: "jsobject \<Rightarrow> jsobject option" where
  "clientTaskSchema_parse body =
     do {
       _ \<leftarrow> z_string (body ''title'');
       _ \<leftarrow> z_optional (z_nullable z_string) (body ''description'');
       _ \<leftarrow> z_string (body ''domain'');
       _ \<leftarrow> z_optional z_string (body ''priority'');
       _ \<leftarrow> z_number (1 / 2) 24 (1 / 2) (body ''estimatedHours'');
       _ \<leftarrow> z_optional (z_nullable z_string) (body ''actualHours'');
       _ \<leftarrow> z_optional z_string (body ''dueDate'');
       Some (body |` set clientTaskKeys)
     }"

text \<open>
  \<open>clientUpdateTaskSchema\<close>: \<open>updateTaskSchema\<close> with \<open>actualHours\<close> and
  \<open>estimatedHours\<close> optional numbers and \<open>dueDate\<close> an optional string, without
  \<open>completedAt\<close>.
\<close>

definition clientUpdateTaskKeys :: "string list" where
  "clientUpdateTaskKeys =
     [''title'', ''description'', ''domain'', ''priority'', ''estimatedHours'',
      ''actualHours'', ''isCompleted'', ''dueDate'']"

definition clientUpdateTaskSchema_parse :: "jsobject \<Rightarrow> jsobject option" where
  "clientUpdateTaskSchema_parse body =
     do {
       _ \<leftarrow> z_optional z_string (body ''title'');
       _ \<leftarrow> z_optional (z_nullable z_string) (body ''description'');
       _ \<leftarrow> z_optional z_string (body ''domain'');
       _ \<leftarrow> z_optional z_string (body ''priority'');
       _ \<leftarrow> z_optional (z_number (1 / 2) 24 (1 / 2)) (body ''estimatedHours'');
       _ \<leftarrow> z_optional (z_number (1 / 10) 100 (1 / 10)) (body ''actualHours'');
       _ \<leftarrow> z_optional z_boolean (body ''isCompleted'');
       _ \<leftarrow> z_optional z_string (body ''dueDate'');
       Some (body |` set clientUpdateTaskKeys)
     }"

section \<open>Storage (\<open>MemStorage\<close>)\<close>

text \<open>Of the storage state, the task map; the user map plays no part in the task
  operations.\<close>

record MemStorage =
  tasks :: "string \<Rightarrow> Task option"

definition getTask :: "string \<Rightarrow> MemStorage \<Rightarrow> Task option" where
  "getTask taskId storage = tasks storage taskId"

text \<open>
  \<open>createTask\<close>; \<open>newId\<close> is what \<open>randomUUID()\<close> returns and \<open>now\<close> what
  \<open>new Date()\<close> reads.  The fields after \<open>...insertTask\<close> in the object literal
  override whatever the spread copied.
\<close>

definition createTask ::
  "InsertTask \<Rightarrow> string \<Rightarrow> Date \<Rightarrow> MemStorage \<Rightarrow> Task \<times> MemStorage" where
  "createTask insertTask newId now storage =
     (let task =
            \<lparr>Task.id' = newId,
             Task.userId = InsertTask.userId insertTask,
             Task.title = InsertTask.title insertTask,
             Task.description = InsertTask.description insertTask,
             Task.domain = InsertTask.domain insertTask,
             Task.priority =
               (case InsertTask.priority insertTask of Some p \<Rightarrow> p | None \<Rightarrow> ''medium''),
             Task.estimatedHours =
               (case InsertTask.estimatedHours insertTask of Some h \<Rightarrow> h | None \<Rightarrow> ''1.0''),
             Task.actualHours = None,
             Task.xpReward = Num 0,
             Task.euReward = Num 0,
             Task.isCompleted = False,
             Task.completedAt = None,
             Task.dueDate = InsertTask.dueDate insertTask,
             Task.createdAt = now,
             Task.updatedAt = now\<rparr>
      in (task, storage\<lparr>tasks := (tasks storage)(newId \<mapsto> task)\<rparr>))"

text \<open>
  \<open>updateData.actualHours || existingTask.estimatedHours\<close>: an absent key, \<open>null\<close> and
  the empty string are falsy.
\<close>

definition hoursOrEstimate :: "string option option \<Rightarrow> string \<Rightarrow> string" where
  "hoursOrEstimate actual estimate =
     (case actual of Some (Some s) \<Rightarrow> if s = '''' then estimate else s | _ \<Rightarrow> estimate)"

text \<open>
  The object \<open>calculatedRewards\<close>: empty (\<open>None\<close>) unless the update completes a task
  that is not completed yet, else \<open>{ xpReward, euReward, actualHours }\<close>.  Both hour
  fields are strings by their types, so \<open>hoursAsNumber\<close> is the \<open>parseFloat\<close> branch.
\<close>

definition calculatedRewards :: "Task \<Rightarrow> UpdateTask \<Rightarrow> (number \<times> number \<times> string) option" where
  "calculatedRewards existingTask updateData =
     (if UpdateTask.isCompleted updateData = Some True \<and> \<not> Task.isCompleted existingTask
      then
        (let actualHours = hoursOrEstimate (UpdateTask.actualHours updateData)
                             (Task.estimatedHours existingTask);
             hoursAsNumber = parseFloat actualHours;
             xpReward = calculateXPReward (Task.priority existingTask) hoursAsNumber;
             euReward = calculateEUReward (Task.domain existingTask) hoursAsNumber
         in Some (xpReward, euReward, actualHours))
      else None)"

text \<open>One key of \<open>{ ...existingTask, ...updateData }\<close>: a key present in the update
  wins.\<close>

definition spread :: "'a \<Rightarrow> 'a option \<Rightarrow> 'a" where
  "spread existing update = (case update of Some v \<Rightarrow> v | None \<Rightarrow> existing)"

text \<open>
  \<open>updateTask\<close>: \<open>{ ...existingTask, ...updateData, ...calculatedRewards, updatedAt }\<close>,
  stored under the id.  An unknown id returns \<open>undefined\<close> and stores nothing.
\<close>

definition updateTask ::
  "string \<Rightarrow> UpdateTask \<Rightarrow> Date \<Rightarrow> MemStorage \<Rightarrow> Task option \<times> MemStorage" where
  "updateTask taskId updateData now storage =
     (case tasks storage taskId of
        None \<Rightarrow> (None, storage)
      | Some existingTask \<Rightarrow>
          (let rewards = calculatedRewards existingTask updateData;
               updatedTask =
                 \<lparr>Task.id' = Task.id' existingTask,
                  Task.userId = Task.userId existingTask,
                  Task.title = spread (Task.title existingTask) (UpdateTask.title updateData),
                  Task.description =
                    spread (Task.description existingTask) (UpdateTask.description updateData),
                  Task.domain = spread (Task.domain existingTask) (UpdateTask.domain updateData),
                  Task.priority =
                    spread (Task.priority existingTask) (UpdateTask.priority updateData),
                  Task.estimatedHours =
                    spread (Task.estimatedHours existingTask)
                      (UpdateTask.estimatedHours updateData),
                  Task.actualHours =
                    (case rewards of
                       Some (xp, eu, hours) \<Rightarrow> Some hours
                     | None \<Rightarrow>
                         spread (Task.actualHours existingTask)
                           (UpdateTask.actualHours updateData)),
                  Task.xpReward =
                    (case rewards of
                       Some (xp, eu, hours) \<Rightarrow> xp
                     | None \<Rightarrow> Task.xpReward existingTask),
                  Task.euReward =
                    (case rewards of
                       Some (xp, eu, hours) \<Rightarrow> eu
                     | None \<Rightarrow> Task.euReward existingTask),
                  Task.isCompleted =
                    spread (Task.isCompleted existingTask) (UpdateTask.isCompleted updateData),
                  Task.completedAt =
                    spread (Task.completedAt existingTask) (UpdateTask.completedAt updateData),
                  Task.dueDate =
                    spread (Task.dueDate existingTask) (UpdateTask.dueDate updateData),
                  Task.createdAt = Task.createdAt existingTask,
                  Task.updatedAt = now\<rparr>
           in (Some updatedTask, storage\<lparr>tasks := (tasks storage)(taskId \<mapsto> updatedTask)\<rparr>)))"

section \<open>Routes (\<open>registerRoutes\<close>)\<close>

text \<open>
  A handler maps the request and the storage to the response and the new storage.  Of
  the response, the status code and the JSON body; the issue list that a validation
  error carries under \<open>details\<close> is left out.
\<close>

datatype responseBody = ErrorJson string | ErrorMessageJson string string | TaskJson Task

type_synonym response = "nat \<times> responseBody"

text \<open>\<open>const userId = req.session?.userId; if (!userId) ...\<close>: no session, no user id
  and the empty user id all count as unauthorised.\<close>

definition sessionUser :: "string option \<Rightarrow> string option" where
  "sessionUser sessionUserId =
     (case sessionUserId of Some u \<Rightarrow> if u = '''' then None else Some u | None \<Rightarrow> None)"

text \<open>\<open>v ? v.toString() : undefined\<close> on an optional number.\<close>

definition toStringIfTruthy :: "jsvalue option \<Rightarrow> jsvalue option" where
  "toStringIfTruthy v =
     (case v of
        Some (JNumber x) \<Rightarrow> if x = 0 then None else Some (JString (Number_toString x))
      | _ \<Rightarrow> None)"

text \<open>\<open>v ? new Date(v) : undefined\<close> on an optional string; \<open>newDate\<close> is the date
  parser of the platform, \<open>None\<close> its Invalid Date.\<close>

definition toDateIfTruthy :: "(string \<Rightarrow> Date option) \<Rightarrow> jsvalue option \<Rightarrow> jsvalue option" where
  "toDateIfTruthy newDate v =
     (case v of
        Some (JString s) \<Rightarrow> if s = '''' then None else Some (JDate (newDate s))
      | _ \<Rightarrow> None)"

text \<open>
  \<open>POST /api/tasks\<close>.  The keys written after \<open>...validatedData\<close> override it; no key
  of \<open>taskData\<close> is \<open>undefined\<close>, so the clean-up loop deletes nothing.  A validated
  body holds a number under \<open>estimatedHours\<close>; \<open>toString\<close> of anything absent would
  throw, which the handler answers with 500.
\<close>

definition postTask ::
  "(string \<Rightarrow> Date option) \<Rightarrow> string option \<Rightarrow> jsobject \<Rightarrow> string \<Rightarrow> Date \<Rightarrow> MemStorage
     \<Rightarrow> response \<times> MemStorage" where
  "postTask newDate sessionUserId body newId now storage =
     (case sessionUser sessionUserId of
        None \<Rightarrow> ((401, ErrorJson ''Unauthorized''), storage)
      | Some user \<Rightarrow>
          (case clientTaskSchema_parse body of
             None \<Rightarrow> ((400, ErrorJson ''Invalid task data''), storage)
           | Some validatedData \<Rightarrow>
               (case validatedData ''estimatedHours'' of
                  Some (JNumber hours) \<Rightarrow>
                    (let taskData = validatedData
                           (''userId'' \<mapsto> JString user,
                            ''estimatedHours'' \<mapsto> JString (Number_toString hours),
                            ''dueDate'' \<mapsto>
                              (case toDateIfTruthy newDate (validatedData ''dueDate'') of
                                 Some d \<Rightarrow> d
                               | None \<Rightarrow> JNull))
                     in case insertTaskSchema_parse taskData of
                          None \<Rightarrow> ((400, ErrorJson ''Invalid task data''), storage)
                        | Some insertTask \<Rightarrow>
                            (case createTask insertTask newId now storage of
                               (task, storage') \<Rightarrow> ((201, TaskJson task), storage')))
                | _ \<Rightarrow> ((500, ErrorJson ''Failed to create task''), storage))))"

text \<open>
  \<open>PATCH /api/tasks/:id\<close>.  \<open>now\<close> is the handler's \<open>new Date()\<close> for \<open>completedAt\<close>,
  \<open>now'\<close> the one that \<open>updateTask\<close> reads afterwards.  Keys whose value is
  \<open>undefined\<close> are deleted from \<open>updateData\<close> before the second parse.
\<close>

definition patchTask ::
  "(string \<Rightarrow> Date option) \<Rightarrow> string option \<Rightarrow> string \<Rightarrow> jsobject \<Rightarrow> Date \<Rightarrow> Date
     \<Rightarrow> MemStorage \<Rightarrow> response \<times> MemStorage" where
  "patchTask newDate sessionUserId taskId body now now' storage =
     (case sessionUser sessionUserId of
        None \<Rightarrow> ((401, ErrorJson ''Unauthorized''), storage)
      | Some user \<Rightarrow>
          (case getTask taskId storage of
             None \<Rightarrow> ((404, ErrorJson ''Task not found''), storage)
           | Some existingTask \<Rightarrow>
               if Task.userId existingTask \<noteq> user
               then ((404, ErrorJson ''Task not found''), storage)
               else
                 (case clientUpdateTaskSchema_parse body of
                    None \<Rightarrow> ((400, ErrorJson ''Invalid update data''), storage)
                  | Some validatedUpdate \<Rightarrow>
                      if validatedUpdate ''isCompleted'' = Some (JBoolean False)
                         \<and> Task.isCompleted existingTask
                      then ((400, ErrorMessageJson ''Cannot un-complete a task''
                               ''Tasks cannot be marked as incomplete once completed to maintain reward integrity.''),
                            storage)
                      else
                        (let updateData = validatedUpdate
                               (''estimatedHours'' :=
                                  toStringIfTruthy (validatedUpdate ''estimatedHours''),
                                ''actualHours'' :=
                                  toStringIfTruthy (validatedUpdate ''actualHours''),
                                ''dueDate'' :=
                                  toDateIfTruthy newDate (validatedUpdate ''dueDate''),
                                ''completedAt'' :=
                                  (if validatedUpdate ''isCompleted'' = Some (JBoolean True)
                                   then Some (JDate (Some now)) else None))
                         in case updateTaskSchema_parse updateData of
                              None \<Rightarrow> ((400, ErrorJson ''Invalid update data''), storage)
                            | Some update \<Rightarrow>
                                (case updateTask taskId update now' storage of
                                   (None, storage') \<Rightarrow>
                                     ((404, ErrorJson ''Task not found''), storage')
                                 | (Some updatedTask, storage') \<Rightarrow>
                                     ((200, TaskJson updatedTask), storage'))))))"

section \<open>Calendar lane allocation (week view and day view)\<close>

text \<open>
  The allocator receives its timestamps as strings and reads them with
  \<open>new Date(s).getTime()\<close>; the model carries the time value that the string denotes.
  An \<open>endTime\<close> that is \<open>undefined\<close> (or the empty string, which is falsy too) is
  \<open>None\<close>.  Strings that do not denote a date (time value \<open>NaN\<close>) are outside the model.
\<close>

text \<open>
  \<open>allocateLanes\<close> is generic in \<open>T extends { startTime: string; endTime?: string }\<close>:
  the extensible record carries whatever else \<open>T\<close> holds in its \<open>more\<close> part.
\<close>

record Timed =
  startTime :: Date
  endTime :: "Date option"

text \<open>The result type \<open>T & { lane: number; maxLanes: number }\<close>; \<open>item\<close> holds the
  fields copied by \<open>{ ...item, lane, maxLanes }\<close>.\<close>

record 'a Positioned =
  item :: 'a
  lane :: nat
  maxLanes :: nat

text \<open>\<open>item.endTime ? new Date(item.endTime).getTime() : itemStart + (60 * 60 * 1000)\<close>\<close>

definition effectiveEnd :: "'a Timed_scheme \<Rightarrow> int" where
  "effectiveEnd x = (case endTime x of Some e \<Rightarrow> e | None \<Rightarrow> startTime x + 60 * 60 * 1000)"

text \<open>The filter predicate of \<open>conflicts\<close>:
  \<open>itemStart < existingEnd && itemEnd > existingStart\<close>.\<close>

definition conflictsWith :: "'a Timed_scheme \<Rightarrow> 'a Timed_scheme \<Rightarrow> bool" where
  "conflictsWith x existing \<longleftrightarrow>
     startTime x < effectiveEnd existing \<and> effectiveEnd x > startTime existing"

text \<open>\<open>let lane = 0; while (usedLanes.includes(lane)) { lane++; }\<close>, started at any lane.\<close>

function firstFreeLane :: "nat list \<Rightarrow> nat \<Rightarrow> nat" where
  "firstFreeLane usedLanes l =
     (if l \<in> set usedLanes then firstFreeLane usedLanes (l + 1) else l)"
  by pat_completeness auto
termination
proof (relation "measure (\<lambda>(usedLanes, l). Suc (Max (set (0 # usedLanes))) - l)")
  show "wf (measure (\<lambda>(usedLanes, l). Suc (Max (set (0 # usedLanes))) - l))"
    by simp
next
  fix usedLanes :: "nat list" and l :: nat
  assume "l \<in> set usedLanes"
  then have "l \<le> Max (set (0 # usedLanes))"
    by (simp add: Max_ge)
  then show "((usedLanes, l + 1), (usedLanes, l))
      \<in> measure (\<lambda>(usedLanes, l). Suc (Max (set (0 # usedLanes))) - l)"
    by simp
qed

declare firstFreeLane.simps [simp del]

text \<open>\<open>Math.max(lane + 1, ...conflicts.map(c => c.maxLanes))\<close>\<close>

definition Math_max :: "nat \<Rightarrow> nat list \<Rightarrow> nat" where
  "Math_max x ys = fold max ys x"

text \<open>
  One pass of the \<open>forEach\<close> body.  \<open>conflicts\<close> holds references to the objects of
  \<open>positioned\<close> that pass the filter, so \<open>conflict.maxLanes = maxLanes\<close> rewrites
  exactly those entries of \<open>positioned\<close>; every entry is a fresh object, so there is no
  other aliasing.  This is the week view, which writes the conflicts first and pushes
  the new entry afterwards.
\<close>

definition placeItem ::
  "('a Timed_scheme) Positioned list \<Rightarrow> 'a Timed_scheme
     \<Rightarrow> ('a Timed_scheme) Positioned list" where
  "placeItem positioned x =
     (let conflicts = filter (\<lambda>existing. conflictsWith x (item existing)) positioned;
          usedLanes = map lane conflicts;
          l = firstFreeLane usedLanes 0;
          m = Math_max (l + 1) (map maxLanes conflicts)
      in map (\<lambda>existing. if conflictsWith x (item existing)
                           then existing\<lparr>maxLanes := m\<rparr> else existing) positioned
         @ [\<lparr>item = x, lane = l, maxLanes = m\<rparr>])"

text \<open>
  \<open>[...items].sort((a, b) => start(a) - start(b))\<close>: \<open>Array.prototype.sort\<close> is stable,
  as is insertion sort by key.
\<close>

definition allocateLanes ::
  "'a Timed_scheme list \<Rightarrow> ('a Timed_scheme) Positioned list" where
  "allocateLanes items = foldl placeItem [] (sort_key startTime items)"

text \<open>
  The day view pushes the new entry before it writes \<open>maxLanes\<close> to the conflicts.
  Here \<open>conflicts\<close> is kept as what it is in the program, references into
  \<open>positioned\<close> (indices), taken before the push.
\<close>

definition placeItemDayView ::
  "('a Timed_scheme) Positioned list \<Rightarrow> 'a Timed_scheme
     \<Rightarrow> ('a Timed_scheme) Positioned list" where
  "placeItemDayView positioned x =
     (let conflicts = filter (\<lambda>i. conflictsWith x (item (positioned ! i)))
                        [0..<length positioned];
          usedLanes = map (\<lambda>i. lane (positioned ! i)) conflicts;
          l = firstFreeLane usedLanes 0;
          m = Math_max (l + 1) (map (\<lambda>i. maxLanes (positioned ! i)) conflicts);
          pushed = positioned @ [\<lparr>item = x, lane = l, maxLanes = m\<rparr>]
      in map (\<lambda>i. if i \<in> set conflicts then (pushed ! i)\<lparr>maxLanes := m\<rparr> else pushed ! i)
           [0..<length pushed])"

definition allocateLanesDayView ::
  "'a Timed_scheme list \<Rightarrow> ('a Timed_scheme) Positioned list" where
  "allocateLanesDayView items = foldl placeItemDayView [] (sort_key startTime items)"

text \<open>The overlap of two effective intervals, as the specification words it:
  \<open>a.start < b.end_effective AND b.start < a.end_effective\<close>.\<close>

definition overlaps :: "'a Timed_scheme \<Rightarrow> 'a Timed_scheme \<Rightarrow> bool" where
  "overlaps a b \<longleftrightarrow> startTime a < effectiveEnd b \<and> startTime b < effectiveEnd a"

text \<open>The lanes of the entries placed before position \<open>j\<close> that overlap entry \<open>j\<close>.\<close>

definition lanesOfEarlierOverlaps ::
  "('a Timed_scheme) Positioned list \<Rightarrow> nat \<Rightarrow> nat set" where
  "lanesOfEarlierOverlaps ps j =
     lane ` {p \<in> set (take j ps). overlaps (item p) (item (ps ! j))}"

text \<open>Minutes as milliseconds, and the three items of the specification's example.\<close>

definition minutes :: "int \<Rightarrow> int" where
  "minutes n = n * 60 * 1000"

definition itemA :: Timed where
  "itemA = \<lparr>startTime = minutes 0, endTime = Some (minutes 60)\<rparr>"

definition itemB :: Timed where
  "itemB = \<lparr>startTime = minutes 30, endTime = Some (minutes 90)\<rparr>"

definition itemC :: Timed where
  "itemC = \<lparr>startTime = minutes 80, endTime = Some (minutes 140)\<rparr>"

section \<open>Week view: what enters the allocator\<close>

definition START_HOUR :: nat where
  "START_HOUR = 6"

definition END_HOUR :: nat where
  "END_HOUR = 23"

text \<open>\<open>Date.getHours()\<close>, and the calendar day that \<open>Date.toDateString()\<close> names.\<close>

definition getHours :: "Date \<Rightarrow> nat" where
  "getHours d = nat ((d div (60 * 60 * 1000)) mod 24)"

definition toDateString :: "Date \<Rightarrow> int" where
  "toDateString d = d div (24 * 60 * 60 * 1000)"

text \<open>\<open>new Date(d.toString()).getTime()\<close>: the string form of a date drops the
  milliseconds.\<close>

definition throughString :: "Date \<Rightarrow> Date" where
  "throughString d = d - d mod 1000"

datatype itemType = event | task

text \<open>The unified \<open>TimedItem\<close> of the view: the two time fields of \<open>Timed\<close> and the rest.\<close>

record TimedItem = Timed +
  id' :: string
  type :: itemType
  data :: "Event + Task"

definition dayEvents :: "Event list \<Rightarrow> Date \<Rightarrow> Event list" where
  "dayEvents events date =
     filter (\<lambda>e. toDateString (Event.startTime e) = toDateString date) events"

definition dayTasks :: "Task list \<Rightarrow> Date \<Rightarrow> Task list" where
  "dayTasks taskList date =
     filter (\<lambda>t. case Task.dueDate t of
                    None \<Rightarrow> False
                  | Some taskDate \<Rightarrow> toDateString taskDate = toDateString date) taskList"

definition timedTasks :: "Task list \<Rightarrow> Date \<Rightarrow> Task list" where
  "timedTasks taskList date =
     filter (\<lambda>t. case Task.dueDate t of
                    None \<Rightarrow> False
                  | Some taskDate \<Rightarrow>
                      getHours taskDate \<ge> START_HOUR \<and> getHours taskDate \<le> END_HOUR)
       (dayTasks taskList date)"

text \<open>The list is sorted by priority before it is shown; the sort permutes it.\<close>

definition allDayTasks :: "Task list \<Rightarrow> Date \<Rightarrow> Task list" where
  "allDayTasks taskList date =
     filter (\<lambda>t. case Task.dueDate t of
                    None \<Rightarrow> True
                  | Some taskDate \<Rightarrow>
                      getHours taskDate < START_HOUR \<or> getHours taskDate > END_HOUR)
       (dayTasks taskList date)"

definition eventItem :: "Event \<Rightarrow> TimedItem" where
  "eventItem e =
     \<lparr>startTime = throughString (Event.startTime e),
      endTime = Some (throughString (Event.endTime e)),
      id' = Event.id' e, type = event, data = Inl e\<rparr>"

text \<open>A task enters with its due date as \<open>startTime\<close> and no \<open>endTime\<close>.  Only tasks
  with a due date are mapped (\<open>task.dueDate!\<close>).\<close>

definition taskItem :: "Task \<Rightarrow> TimedItem" where
  "taskItem t =
     \<lparr>startTime = throughString (case Task.dueDate t of Some d \<Rightarrow> d | None \<Rightarrow> 0),
      endTime = None,
      id' = Task.id' t, type = task, data = Inr t\<rparr>"

definition timedItems :: "Event list \<Rightarrow> Task list \<Rightarrow> Date \<Rightarrow> TimedItem list" where
  "timedItems events taskList date =
     map eventItem (dayEvents events date) @ map taskItem (timedTasks taskList date)"

definition timedItemsWithLanes ::
  "Event list \<Rightarrow> Task list \<Rightarrow> Date \<Rightarrow> TimedItem Positioned list" where
  "timedItemsWithLanes events taskList date = allocateLanes (timedItems events taskList date)"

section \<open>Auxiliary notions for the proofs\<close>

text \<open>What an entry keeps for good once it is placed: the item and its lane.\<close>

definition core :: "'a Positioned \<Rightarrow> 'a \<times> nat" where
  "core p = (item p, lane p)"

text \<open>The lane that \<open>placeItem\<close> gives the new item.\<close>

definition newLane :: "('a Timed_scheme) Positioned list \<Rightarrow> 'a Timed_scheme \<Rightarrow> nat" where
  "newLane ps x =
     firstFreeLane (map lane (filter (\<lambda>existing. conflictsWith x (item existing)) ps)) 0"

text \<open>First fit, for every entry of a list against the entries before it.\<close>

definition firstFit :: "('a Timed_scheme) Positioned list \<Rightarrow> bool" where
  "firstFit ps \<longleftrightarrow>
     (\<forall>j < length ps. lane (ps ! j) \<notin> lanesOfEarlierOverlaps ps j
        \<and> (\<forall>k < lane (ps ! j). k \<in> lanesOfEarlierOverlaps ps j))"

text \<open>The handler's \<open>updateData\<close>, named so that the proofs can refer to it.\<close>

definition routeUpdateData :: "(string \<Rightarrow> Date option) \<Rightarrow> jsobject \<Rightarrow> Date \<Rightarrow> jsobject" where
  "routeUpdateData newDate validatedUpdate now =
     validatedUpdate
       (''estimatedHours'' := toStringIfTruthy (validatedUpdate ''estimatedHours''),
        ''actualHours'' := toStringIfTruthy (validatedUpdate ''actualHours''),
        ''dueDate'' := toDateIfTruthy newDate (validatedUpdate ''dueDate''),
        ''completedAt'' :=
          (if validatedUpdate ''isCompleted'' = Some (JBoolean True)
           then Some (JDate (Some now)) else None))"

section \<open>Concrete inputs\<close>

text \<open>A fourth calendar item, with the interval of \<open>itemC\<close>.\<close>

definition itemD :: Timed where
  "itemD = \<lparr>startTime = minutes 80, endTime = Some (minutes 140)\<rparr>"

text \<open>A second triple with the same overlap pattern, in which B starts first and spans
  the other two: A from 10 to 20 minutes, B from 0 to 100, C from 30 to 40.\<close>

definition itemA2 :: Timed where
  "itemA2 = \<lparr>startTime = minutes 10, endTime = Some (minutes 20)\<rparr>"

definition itemB2 :: Timed where
  "itemB2 = \<lparr>startTime = minutes 0, endTime = Some (minutes 100)\<rparr>"

definition itemC2 :: Timed where
  "itemC2 = \<lparr>startTime = minutes 30, endTime = Some (minutes 40)\<rparr>"

text \<open>A task as \<open>createTask\<close> leaves it, the same task once completed, and a storage
  that holds one task.\<close>

definition openTask :: Task where
  "openTask =
     \<lparr>Task.id' = ''t1'', Task.userId = ''u1'', Task.title = ''run'',
      Task.description = None, Task.domain = ''fitness'', Task.priority = ''high'',
      Task.estimatedHours = ''2'', Task.actualHours = None, Task.xpReward = Num 0,
      Task.euReward = Num 0, Task.isCompleted = False, Task.completedAt = None,
      Task.dueDate = None, Task.createdAt = 1000, Task.updatedAt = 1000\<rparr>"

definition completedTask :: Task where
  "completedTask =
     openTask\<lparr>Task.actualHours := Some ''2'', Task.xpReward := Num 50,
               Task.euReward := Num 50, Task.isCompleted := True,
               Task.completedAt := Some 2000, Task.updatedAt := 2001\<rparr>"

definition storageOf :: "Task \<Rightarrow> MemStorage" where
  "storageOf t = \<lparr>tasks = [Task.id' t \<mapsto> t]\<rparr>"

definition emptyStorage :: MemStorage where
  "emptyStorage = \<lparr>tasks = Map.empty\<rparr>"

text \<open>A date parser that reads no string as a date.\<close>

definition noDates :: "string \<Rightarrow> Date option" where
  "noDates s = None"

text \<open>A create request that also carries reward and completion keys.\<close>

definition createBody :: jsobject where
  "createBody =
     [''title'' \<mapsto> JString ''run'', ''domain'' \<mapsto> JString ''fitness'',
      ''priority'' \<mapsto> JString ''high'', ''estimatedHours'' \<mapsto> JNumber 2,
      ''xpReward'' \<mapsto> JNumber 999, ''euReward'' \<mapsto> JNumber 999,
      ''isCompleted'' \<mapsto> JBoolean True, ''actualHours'' \<mapsto> JString ''7'']"

text \<open>The open task with a due date.\<close>

definition dueAt :: "Date \<Rightarrow> Task" where
  "dueAt d = openTask\<lparr>Task.dueDate := Some d\<rparr>"

text \<open>An update that only completes the task.\<close>

definition completeUpdate :: UpdateTask where
  "completeUpdate =
     \<lparr>UpdateTask.title = None, UpdateTask.description = None, UpdateTask.domain = None,
      UpdateTask.priority = None, UpdateTask.estimatedHours = None,
      UpdateTask.actualHours = None, UpdateTask.isCompleted = Some True,
      UpdateTask.completedAt = None, UpdateTask.dueDate = None\<rparr>"

section \<open>The lane allocator: lemmas\<close>

text \<open>The loop that searches a lane returns a lane that is free, and skips none that is.\<close>

lemma firstFreeLane_notin: "firstFreeLane us l \<notin> set us"
  by (induction us l rule: firstFreeLane.induct) (subst firstFreeLane.simps, simp)

lemma firstFreeLane_below: "l \<le> k \<Longrightarrow> k < firstFreeLane us l \<Longrightarrow> k \<in> set us"
proof (induction us l rule: firstFreeLane.induct)
  case (1 us l)
  show ?case
  proof (cases "l \<in> set us")
    case True
    show ?thesis
    proof (cases "k = l")
      case True
      with \<open>l \<in> set us\<close> show ?thesis by simp
    next
      case False
      with "1.prems" have "l + 1 \<le> k" by simp
      moreover from "1.prems" True have "k < firstFreeLane us (l + 1)"
        by (subst (asm) firstFreeLane.simps) simp
      ultimately show ?thesis using "1.IH" True by blast
    qed
  next
    case False
    with "1.prems" show ?thesis
      by (subst (asm) firstFreeLane.simps) simp
  qed
qed

lemma core_placeItem: "map core (placeItem ps x) = map core ps @ [(x, newLane ps x)]"
  by (simp add: placeItem_def newLane_def Let_def core_def comp_def)

lemma length_placeItem: "length (placeItem ps x) = Suc (length ps)"
  by (simp add: placeItem_def Let_def)

lemma lanesOfEarlierOverlaps_core:
  assumes "j < length ps"
  shows "lanesOfEarlierOverlaps ps j =
    snd ` {c \<in> set (take j (map core ps)). overlaps (fst c) (fst (map core ps ! j))}"
  using assms unfolding lanesOfEarlierOverlaps_def
  by (auto simp: core_def take_map image_iff intro!: bexI)

lemma lanesOfEarlierOverlaps_old:
  assumes "j < length ps"
  shows "lanesOfEarlierOverlaps (placeItem ps x) j = lanesOfEarlierOverlaps ps j"
proof -
  have "j < length (placeItem ps x)" using assms by (simp add: length_placeItem)
  then show ?thesis using assms
    by (simp add: lanesOfEarlierOverlaps_core core_placeItem nth_append)
qed

lemma conflictsWith_overlaps: "conflictsWith x e \<longleftrightarrow> overlaps e x"
  by (auto simp: conflictsWith_def overlaps_def)

lemma overlaps_sym: "overlaps a b \<longleftrightarrow> overlaps b a"
  by (auto simp: overlaps_def)

lemma lanesOfEarlierOverlaps_new:
  "lanesOfEarlierOverlaps (placeItem ps x) (length ps) =
     set (map lane (filter (\<lambda>existing. conflictsWith x (item existing)) ps))"
proof -
  have "length ps < length (placeItem ps x)" by (simp add: length_placeItem)
  then show ?thesis
    by (fastforce simp: lanesOfEarlierOverlaps_core core_placeItem nth_append conflictsWith_overlaps core_def image_iff)
qed

lemma lane_placeItem_old: "j < length ps \<Longrightarrow> lane (placeItem ps x ! j) = lane (ps ! j)"
  by (simp add: placeItem_def Let_def nth_append)

lemma lane_placeItem_new: "lane (placeItem ps x ! length ps) = newLane ps x"
  by (simp add: placeItem_def Let_def nth_append newLane_def)

lemma firstFit_placeItem:
  assumes "firstFit ps"
  shows "firstFit (placeItem ps x)"
  unfolding firstFit_def
proof (intro allI impI)
  fix j assume "j < length (placeItem ps x)"
  then consider "j < length ps" | "j = length ps"
    by (auto simp: length_placeItem less_Suc_eq)
  then show "lane (placeItem ps x ! j) \<notin> lanesOfEarlierOverlaps (placeItem ps x) j \<and>
         (\<forall>k<lane (placeItem ps x ! j). k \<in> lanesOfEarlierOverlaps (placeItem ps x) j)"
  proof cases
    case 1
    with assms show ?thesis
      by (simp add: lanesOfEarlierOverlaps_old lane_placeItem_old firstFit_def)
  next
    case 2
    show ?thesis
      unfolding 2 lanesOfEarlierOverlaps_new lane_placeItem_new newLane_def
      using firstFreeLane_notin firstFreeLane_below by blast
  qed
qed

lemma firstFit_foldl: "firstFit ps \<Longrightarrow> firstFit (foldl placeItem ps xs)"
  by (induction xs arbitrary: ps) (simp_all add: firstFit_placeItem)

lemma firstFit_allocateLanes: "firstFit (allocateLanes items)"
  unfolding allocateLanes_def by (rule firstFit_foldl) (simp add: firstFit_def)

lemma item_foldl: "map item (foldl placeItem ps xs) = map item ps @ xs"
proof (induction xs arbitrary: ps)
  case Nil show ?case by simp
next
  case (Cons x xs)
  have "map item (placeItem ps x) = map item ps @ [x]"
    by (simp add: placeItem_def Let_def comp_def)
  with Cons show ?case by simp
qed

lemma item_allocateLanes: "map item (allocateLanes items) = sort_key startTime items"
  by (simp add: allocateLanes_def item_foldl)

text \<open>The allocator of the day view computes the same list as that of the week view.\<close>

lemma filter_indices:
  "map ((!) ps) (filter (\<lambda>i. P (ps ! i)) [0..<length ps]) = filter P ps"
proof -
  have "filter P (map ((!) ps) [0..<length ps]) = filter P ps"
    by (simp add: map_nth)
  then show ?thesis by (simp add: filter_map comp_def)
qed

lemma placeItemDayView_eq: "placeItemDayView ps x = placeItem ps x"
proof -
  let ?c = "filter (\<lambda>i. conflictsWith x (item (ps ! i))) [0..<length ps]"
  have c: "map ((!) ps) ?c = filter (\<lambda>existing. conflictsWith x (item existing)) ps"
    using filter_indices[of ps "\<lambda>e. conflictsWith x (item e)"] by simp
  have lanes: "map (\<lambda>i. lane (ps ! i)) ?c
             = map lane (filter (\<lambda>existing. conflictsWith x (item existing)) ps)"
    using arg_cong[OF c, of "map lane"] by (simp add: comp_def)
  have maxs: "map (\<lambda>i. maxLanes (ps ! i)) ?c
             = map maxLanes (filter (\<lambda>existing. conflictsWith x (item existing)) ps)"
    using arg_cong[OF c, of "map maxLanes"] by (simp add: comp_def)
  show ?thesis
    unfolding placeItemDayView_def placeItem_def Let_def lanes maxs
    by (rule nth_equalityI) (auto simp: nth_append)
qed

lemma allocateLanesDayView_eq: "allocateLanesDayView items = allocateLanes items"
proof -
  have "placeItemDayView = (placeItem :: ('a Timed_scheme) Positioned list \<Rightarrow> _)"
    by (intro ext) (rule placeItemDayView_eq)
  then show ?thesis by (simp add: allocateLanesDayView_def allocateLanes_def)
qed

lemma earlier_lane_mem:
  assumes "i < j" "j < length ps" "overlaps (item (ps ! i)) (item (ps ! j))"
  shows "lane (ps ! i) \<in> lanesOfEarlierOverlaps ps j"
proof -
  have "ps ! i \<in> set (take j ps)"
    using assms(1,2) by (metis in_set_conv_nth length_take min.absorb2 less_imp_le nth_take)
  then show ?thesis
    using assms(3) by (auto simp: lanesOfEarlierOverlaps_def)
qed

lemma three_lanes:
  assumes "map item ps = [a, b, c]" "firstFit ps"
    "overlaps a b" "overlaps b c" "\<not> overlaps a c"
  shows "map lane ps = [0, 1, 0]"
proof -
  from assms(1) obtain p q r where ps: "ps = [p, q, r]" and it: "item p = a" "item q = b" "item r = c"
    by (auto simp: map_eq_Cons_conv)
  have L0: "lanesOfEarlierOverlaps ps 0 = {}"
    by (simp add: lanesOfEarlierOverlaps_def)
  have L1: "lanesOfEarlierOverlaps ps 1 = {lane p}"
    using assms(3) by (auto simp: lanesOfEarlierOverlaps_def ps it)
  have L2: "lanesOfEarlierOverlaps ps 2 = {lane q}"
    using assms(4,5) by (auto simp: lanesOfEarlierOverlaps_def ps it take_Suc_conv_app_nth numeral_2_eq_2)
  from assms(2) have ff: "\<And>j. j < 3 \<Longrightarrow> lane (ps ! j) \<notin> lanesOfEarlierOverlaps ps j
        \<and> (\<forall>k < lane (ps ! j). k \<in> lanesOfEarlierOverlaps ps j)"
    by (simp add: firstFit_def ps)
  have f0: "\<forall>k<lane p. k \<in> lanesOfEarlierOverlaps ps 0"
    using ff[of 0] by (simp add: ps)
  have f1: "lane q \<notin> lanesOfEarlierOverlaps ps 1" "\<forall>k<lane q. k \<in> lanesOfEarlierOverlaps ps 1"
    using ff[of 1] by (simp_all add: ps)
  have f2: "lane r \<notin> lanesOfEarlierOverlaps ps 2" "\<forall>k<lane r. k \<in> lanesOfEarlierOverlaps ps 2"
    using ff[of 2] by (simp_all add: ps)
  have p0: "lane p = 0" using f0 L0 by auto
  have q1: "lane q = 1"
  proof -
    from f1 L1 p0 have "lane q \<noteq> 0" by simp
    moreover have "lane q < 2"
    proof (rule ccontr)
      assume "\<not> lane q < 2"
      then have "1 < lane q" by simp
      with f1(2) L1 p0 show False by auto
    qed
    ultimately show ?thesis by simp
  qed
  have r0: "lane r = 0"
  proof (rule ccontr)
    assume "lane r \<noteq> 0"
    then have "0 < lane r" by simp
    with f2(2) L2 q1 show False by auto
  qed
  show ?thesis by (simp add: ps p0 q1 r0)
qed

lemma least_free_lane:
  fixes l :: nat
  assumes "l \<notin> S" and "\<forall>k < l. k \<in> S"
  shows "S = {} \<Longrightarrow> l = 0" and "S = {0} \<Longrightarrow> l = 1" and "S = {1} \<Longrightarrow> l = 0"
proof -
  show "S = {} \<Longrightarrow> l = 0"
    using assms(2) by (cases l) auto
  show "S = {0} \<Longrightarrow> l = 1"
  proof -
    assume S: "S = {0}"
    have "l \<noteq> 0" using assms(1) S by auto
    moreover have "l < 2"
    proof (rule ccontr)
      assume "\<not> l < 2"
      then have "1 < l" by simp
      with assms(2) S show False by auto
    qed
    ultimately show "l = 1" by simp
  qed
  show "S = {1} \<Longrightarrow> l = 0"
  proof (rule ccontr)
    assume S: "S = {1}" and "l \<noteq> 0"
    then have "0 < l" by simp
    with assms(2) S show False by auto
  qed
qed

lemma three_entries:
  assumes "map item ps = [x, y, z]" and "firstFit ps"
  obtains p q r where "ps = [p, q, r]" and "item p = x" and "item q = y" and "item r = z"
    and "lane p = 0"
    and "lane q \<notin> (if overlaps x y then {lane p} else {})"
    and "\<forall>k < lane q. k \<in> (if overlaps x y then {lane p} else {})"
    and "lane r \<notin> (if overlaps x z then {lane p} else {}) \<union> (if overlaps y z then {lane q} else {})"
    and "\<forall>k < lane r. k \<in> (if overlaps x z then {lane p} else {}) \<union> (if overlaps y z then {lane q} else {})"
proof -
  from assms(1) obtain p q r where ps: "ps = [p, q, r]"
    and it: "item p = x" "item q = y" "item r = z"
    by (auto simp: map_eq_Cons_conv)
  have L0: "lanesOfEarlierOverlaps ps 0 = {}"
    by (simp add: lanesOfEarlierOverlaps_def)
  have L1: "lanesOfEarlierOverlaps ps 1 = (if overlaps x y then {lane p} else {})"
    by (auto simp: lanesOfEarlierOverlaps_def ps it)
  have L2: "lanesOfEarlierOverlaps ps 2
        = (if overlaps x z then {lane p} else {}) \<union> (if overlaps y z then {lane q} else {})"
    by (auto simp: lanesOfEarlierOverlaps_def ps it take_Suc_conv_app_nth numeral_2_eq_2)
  from assms(2) have ff: "\<And>j. j < 3 \<Longrightarrow> lane (ps ! j) \<notin> lanesOfEarlierOverlaps ps j
        \<and> (\<forall>k < lane (ps ! j). k \<in> lanesOfEarlierOverlaps ps j)"
    by (simp add: firstFit_def ps)
  have f0: "lane p \<notin> lanesOfEarlierOverlaps ps 0" "\<forall>k<lane p. k \<in> lanesOfEarlierOverlaps ps 0"
    using ff[of 0] by (simp_all add: ps)
  have f1: "lane q \<notin> lanesOfEarlierOverlaps ps 1" "\<forall>k<lane q. k \<in> lanesOfEarlierOverlaps ps 1"
    using ff[of 1] by (simp_all add: ps)
  have f2: "lane r \<notin> lanesOfEarlierOverlaps ps 2" "\<forall>k<lane r. k \<in> lanesOfEarlierOverlaps ps 2"
    using ff[of 2] by (simp_all add: ps)
  have p0: "lane p = 0"
    using least_free_lane(1)[OF f0 L0] .
  show thesis
    using that[OF ps it p0] f1 f2 unfolding L1 L2 by blast
qed

lemma three_lanes_middle_last:
  assumes "map item ps = [x, y, z]" and "firstFit ps"
    and "\<not> overlaps x y" and "overlaps x z" and "overlaps y z"
  shows "map lane ps = [0, 0, 1]"
proof -
  from three_entries[OF assms(1,2)] obtain p q r where ps: "ps = [p, q, r]"
    and p0: "lane p = 0"
    and q: "lane q \<notin> (if overlaps x y then {lane p} else {})"
       "\<forall>k < lane q. k \<in> (if overlaps x y then {lane p} else {})"
    and r: "lane r \<notin> (if overlaps x z then {lane p} else {}) \<union> (if overlaps y z then {lane q} else {})"
       "\<forall>k < lane r. k \<in> (if overlaps x z then {lane p} else {}) \<union> (if overlaps y z then {lane q} else {})"
    by metis
  have q0: "lane q = 0"
    using least_free_lane(1)[OF q] assms(3) by simp
  have r1: "lane r = 1"
    using least_free_lane(2)[OF r] assms(4,5) p0 q0 by simp
  show ?thesis by (simp add: ps p0 q0 r1)
qed

lemma three_lanes_middle_first:
  assumes "map item ps = [x, y, z]" and "firstFit ps"
    and "overlaps x y" and "overlaps x z" and "\<not> overlaps y z"
  shows "map lane ps = [0, 1, 1]"
proof -
  from three_entries[OF assms(1,2)] obtain p q r where ps: "ps = [p, q, r]"
    and p0: "lane p = 0"
    and q: "lane q \<notin> (if overlaps x y then {lane p} else {})"
       "\<forall>k < lane q. k \<in> (if overlaps x y then {lane p} else {})"
    and r: "lane r \<notin> (if overlaps x z then {lane p} else {}) \<union> (if overlaps y z then {lane q} else {})"
       "\<forall>k < lane r. k \<in> (if overlaps x z then {lane p} else {}) \<union> (if overlaps y z then {lane q} else {})"
    by metis
  have q1: "lane q = 1"
    using least_free_lane(2)[OF q] assms(3) p0 by simp
  have r1: "lane r = 1"
    using least_free_lane(2)[OF r] assms(4,5) p0 by simp
  show ?thesis by (simp add: ps p0 q1 r1)
qed

lemma example_second_triple:
  "overlaps itemA2 itemB2 \<and> overlaps itemB2 itemC2 \<and> \<not> overlaps itemA2 itemC2
   \<and> sort_key startTime [itemA2, itemB2, itemC2] = [itemB2, itemA2, itemC2]
   \<and> map item (allocateLanes [itemA2, itemB2, itemC2]) = [itemB2, itemA2, itemC2]
   \<and> map lane (allocateLanes [itemA2, itemB2, itemC2]) = [0, 1, 1]"
  by code_simp




lemma example_overlaps:
  "overlaps itemA itemB \<and> overlaps itemB itemC \<and> \<not> overlaps itemA itemC
   \<and> overlaps itemB itemD \<and> overlaps itemC itemD \<and> \<not> overlaps itemA itemD"
  by code_simp

lemma example_sorted: "sort_key startTime [itemA, itemB, itemC] = [itemA, itemB, itemC]"
  by code_simp

section \<open>The lane allocator: the claims\<close>




text \<open>
  Claim C2.  In the output of \<open>allocateLanes\<close>, two entries at different positions
  whose effective intervals overlap have different lanes.  The output holds the input
  items in the order of placement (\<open>item_allocateLanes\<close>), and the day view's
  allocator returns the same list (\<open>allocateLanesDayView_eq\<close>).
\<close>

theorem allocateLanes_overlap_lanes_differ:
  assumes "i < length (allocateLanes items)" and "j < length (allocateLanes items)"
    and "i \<noteq> j"
    and "overlaps (item (allocateLanes items ! i)) (item (allocateLanes items ! j))"
  shows "lane (allocateLanes items ! i) \<noteq> lane (allocateLanes items ! j)"
proof -
  let ?ps = "allocateLanes items"
  have ff: "\<And>n. n < length ?ps \<Longrightarrow> lane (?ps ! n) \<notin> lanesOfEarlierOverlaps ?ps n"
    using firstFit_allocateLanes[of items] by (simp add: firstFit_def)
  show ?thesis
  proof (cases "i < j")
    case True
    from earlier_lane_mem[OF True assms(2) assms(4)] ff[OF assms(2)]
    show ?thesis by auto
  next
    case False
    with assms(3) have ji: "j < i" by simp
    from assms(4) have "overlaps (item (?ps ! j)) (item (?ps ! i))"
      by (simp add: overlaps_sym)
    from earlier_lane_mem[OF ji assms(1) this] ff[OF assms(1)]
    show ?thesis by auto
  qed
qed

theorem allocateLanes_overlap_lanes_differ_witness:
  "0 < length (allocateLanes [itemA, itemB, itemC])
   \<and> 1 < length (allocateLanes [itemA, itemB, itemC])
   \<and> overlaps (item (allocateLanes [itemA, itemB, itemC] ! 0))
        (item (allocateLanes [itemA, itemB, itemC] ! 1))
   \<and> lane (allocateLanes [itemA, itemB, itemC] ! 0)
       \<noteq> lane (allocateLanes [itemA, itemB, itemC] ! 1)"
proof -
  have h0: "0 < length (allocateLanes [itemA, itemB, itemC])"
    by code_simp
  have h1: "1 < length (allocateLanes [itemA, itemB, itemC])"
    by code_simp
  have ne: "(0::nat) \<noteq> 1"
    by simp
  have ov: "overlaps (item (allocateLanes [itemA, itemB, itemC] ! 0))
        (item (allocateLanes [itemA, itemB, itemC] ! 1))"
    by code_simp
  from allocateLanes_overlap_lanes_differ[OF h0 h1 ne ov] h0 h1 ov
  show ?thesis by simp
qed

text \<open>
  Claim C3, as the code has it.  Every entry of the output has the smallest lane that
  no earlier entry with an overlapping interval uses: its lane is not among those
  lanes, and every smaller number is.  For three items a, b, c with a and b
  overlapping, b and c overlapping, and a and c disjoint, the lane of c depends on the
  order of placement (start time ascending, ties in input order): c gets lane 0 in
  every order in which b is not placed first, as in the order a, b, c with lanes
  0, 1, 0; when b is placed first, c gets lane 1; in no order does c get lane 2.
\<close>

theorem allocateLanes_first_fit:
  "(\<forall>j < length (allocateLanes items).
       lane (allocateLanes items ! j) \<notin> lanesOfEarlierOverlaps (allocateLanes items) j
     \<and> (\<forall>k < lane (allocateLanes items ! j). k \<in> lanesOfEarlierOverlaps (allocateLanes items) j))
   \<and> (sort_key startTime items = [a, b, c] \<and> overlaps a b \<and> overlaps b c \<and> \<not> overlaps a c
        \<longrightarrow> map lane (allocateLanes items) = [0, 1, 0])
   \<and> (sort_key startTime items = [c, b, a] \<and> overlaps a b \<and> overlaps b c \<and> \<not> overlaps a c
        \<longrightarrow> map lane (allocateLanes items) = [0, 1, 0])
   \<and> (sort_key startTime items = [a, c, b] \<and> overlaps a b \<and> overlaps b c \<and> \<not> overlaps a c
        \<longrightarrow> map lane (allocateLanes items) = [0, 0, 1])
   \<and> (sort_key startTime items = [c, a, b] \<and> overlaps a b \<and> overlaps b c \<and> \<not> overlaps a c
        \<longrightarrow> map lane (allocateLanes items) = [0, 0, 1])
   \<and> (sort_key startTime items = [b, a, c] \<and> overlaps a b \<and> overlaps b c \<and> \<not> overlaps a c
        \<longrightarrow> map lane (allocateLanes items) = [0, 1, 1])
   \<and> (sort_key startTime items = [b, c, a] \<and> overlaps a b \<and> overlaps b c \<and> \<not> overlaps a c
        \<longrightarrow> map lane (allocateLanes items) = [0, 1, 1])"
proof (intro conjI impI)
  show "\<forall>j < length (allocateLanes items).
       lane (allocateLanes items ! j) \<notin> lanesOfEarlierOverlaps (allocateLanes items) j
     \<and> (\<forall>k < lane (allocateLanes items ! j). k \<in> lanesOfEarlierOverlaps (allocateLanes items) j)"
    using firstFit_allocateLanes[of items] by (simp add: firstFit_def)
next
  assume h: "sort_key startTime items = [a, b, c] \<and> overlaps a b \<and> overlaps b c \<and> \<not> overlaps a c"
  then have "map item (allocateLanes items) = [a, b, c]"
    by (simp add: item_allocateLanes)
  from three_lanes[OF this firstFit_allocateLanes] h
  show "map lane (allocateLanes items) = [0, 1, 0]" by blast
next
  assume h: "sort_key startTime items = [c, b, a] \<and> overlaps a b \<and> overlaps b c \<and> \<not> overlaps a c"
  then have i: "map item (allocateLanes items) = [c, b, a]"
    by (simp add: item_allocateLanes)
  from h have "overlaps c b" and "overlaps b a" and "\<not> overlaps c a"
    by (simp_all add: overlaps_sym[of c b] overlaps_sym[of b a] overlaps_sym[of c a])
  from three_lanes[OF i firstFit_allocateLanes this]
  show "map lane (allocateLanes items) = [0, 1, 0]" .
next
  assume h: "sort_key startTime items = [a, c, b] \<and> overlaps a b \<and> overlaps b c \<and> \<not> overlaps a c"
  then have i: "map item (allocateLanes items) = [a, c, b]"
    by (simp add: item_allocateLanes)
  from h have "\<not> overlaps a c" and "overlaps a b" and "overlaps c b"
    by (simp_all add: overlaps_sym[of c b])
  from three_lanes_middle_last[OF i firstFit_allocateLanes this]
  show "map lane (allocateLanes items) = [0, 0, 1]" .
next
  assume h: "sort_key startTime items = [c, a, b] \<and> overlaps a b \<and> overlaps b c \<and> \<not> overlaps a c"
  then have i: "map item (allocateLanes items) = [c, a, b]"
    by (simp add: item_allocateLanes)
  from h have "\<not> overlaps c a" and "overlaps c b" and "overlaps a b"
    by (simp_all add: overlaps_sym[of c b] overlaps_sym[of c a])
  from three_lanes_middle_last[OF i firstFit_allocateLanes this]
  show "map lane (allocateLanes items) = [0, 0, 1]" .
next
  assume h: "sort_key startTime items = [b, a, c] \<and> overlaps a b \<and> overlaps b c \<and> \<not> overlaps a c"
  then have i: "map item (allocateLanes items) = [b, a, c]"
    by (simp add: item_allocateLanes)
  from h have "overlaps b a" and "overlaps b c" and "\<not> overlaps a c"
    by (simp_all add: overlaps_sym[of b a])
  from three_lanes_middle_first[OF i firstFit_allocateLanes this]
  show "map lane (allocateLanes items) = [0, 1, 1]" .
next
  assume h: "sort_key startTime items = [b, c, a] \<and> overlaps a b \<and> overlaps b c \<and> \<not> overlaps a c"
  then have i: "map item (allocateLanes items) = [b, c, a]"
    by (simp add: item_allocateLanes)
  from h have "overlaps b c" and "overlaps b a" and "\<not> overlaps c a"
    by (simp_all add: overlaps_sym[of b a] overlaps_sym[of c a])
  from three_lanes_middle_first[OF i firstFit_allocateLanes this]
  show "map lane (allocateLanes items) = [0, 1, 1]" .
qed

text \<open>The first triple is placed in the order A, B, C and the second in the order
  B, A, C.\<close>

theorem allocateLanes_first_fit_witness:
  "sort_key startTime [itemA, itemB, itemC] = [itemA, itemB, itemC]
   \<and> overlaps itemA itemB \<and> overlaps itemB itemC \<and> \<not> overlaps itemA itemC
   \<and> map lane (allocateLanes [itemA, itemB, itemC]) = [0, 1, 0]
   \<and> 2 < length (allocateLanes [itemA, itemB, itemC])
   \<and> lane (allocateLanes [itemA, itemB, itemC] ! 2)
       \<notin> lanesOfEarlierOverlaps (allocateLanes [itemA, itemB, itemC]) 2
   \<and> sort_key startTime [itemA2, itemB2, itemC2] = [itemB2, itemA2, itemC2]
   \<and> overlaps itemA2 itemB2 \<and> overlaps itemB2 itemC2 \<and> \<not> overlaps itemA2 itemC2
   \<and> map lane (allocateLanes [itemA2, itemB2, itemC2]) = [0, 1, 1]"
proof -
  have h: "sort_key startTime [itemA, itemB, itemC] = [itemA, itemB, itemC]
      \<and> overlaps itemA itemB \<and> overlaps itemB itemC \<and> \<not> overlaps itemA itemC"
    using example_sorted example_overlaps by simp
  have n: "2 < length (allocateLanes [itemA, itemB, itemC])"
    by code_simp
  have h2: "sort_key startTime [itemA2, itemB2, itemC2] = [itemB2, itemA2, itemC2]
      \<and> overlaps itemA2 itemB2 \<and> overlaps itemB2 itemC2 \<and> \<not> overlaps itemA2 itemC2"
    using example_second_triple by simp
  from allocateLanes_first_fit[of "[itemA, itemB, itemC]" itemA itemB itemC] h n
  have 1: "map lane (allocateLanes [itemA, itemB, itemC]) = [0, 1, 0]
      \<and> lane (allocateLanes [itemA, itemB, itemC] ! 2)
          \<notin> lanesOfEarlierOverlaps (allocateLanes [itemA, itemB, itemC]) 2"
    by blast
  from allocateLanes_first_fit[of "[itemA2, itemB2, itemC2]" itemA2 itemB2 itemC2] h2
  have 2: "map lane (allocateLanes [itemA2, itemB2, itemC2]) = [0, 1, 1]"
    by blast
  from h n h2 1 2 show ?thesis by blast
qed

text \<open>
  Claim C3 as stated fails: in the second triple A and B overlap, B and C overlap, A
  and C are disjoint, B is placed first, and C is assigned lane 1, not lane 0.
\<close>

theorem first_fit_example_counterexample:
  "overlaps itemA2 itemB2 \<and> overlaps itemB2 itemC2 \<and> \<not> overlaps itemA2 itemC2
   \<and> map item (allocateLanes [itemA2, itemB2, itemC2]) = [itemB2, itemA2, itemC2]
   \<and> map lane (allocateLanes [itemA2, itemB2, itemC2]) = [0, 1, 1]
   \<and> lane (allocateLanes [itemA2, itemB2, itemC2] ! 2) \<noteq> 0"
  by code_simp

section \<open>Rewards and routes: lemmas\<close>

lemma strip_client_update:
  assumes "k \<notin> set clientUpdateTaskKeys"
  shows "clientUpdateTaskSchema_parse (body(k := v)) = clientUpdateTaskSchema_parse body"
proof -
  have "(body(k := v)) |` set clientUpdateTaskKeys = body |` set clientUpdateTaskKeys"
    using assms by (auto simp: restrict_map_def fun_eq_iff)
  moreover have "\<And>k'. k' \<in> set clientUpdateTaskKeys \<Longrightarrow> (body(k := v)) k' = body k'"
    using assms by auto
  ultimately show ?thesis
    by (simp add: clientUpdateTaskSchema_parse_def clientUpdateTaskKeys_def)
qed

lemma strip_client_task:
  assumes "k \<notin> set clientTaskKeys"
  shows "clientTaskSchema_parse (body(k := v)) = clientTaskSchema_parse body"
proof -
  have "(body(k := v)) |` set clientTaskKeys = body |` set clientTaskKeys"
    using assms by (auto simp: restrict_map_def fun_eq_iff)
  moreover have "\<And>k'. k' \<in> set clientTaskKeys \<Longrightarrow> (body(k := v)) k' = body k'"
    using assms by auto
  ultimately show ?thesis
    by (simp add: clientTaskSchema_parse_def clientTaskKeys_def)
qed

lemma patchTask_strip:
  assumes "k \<notin> set clientUpdateTaskKeys"
  shows "patchTask newDate s taskId (body(k := v)) now now' storage = patchTask newDate s taskId body now now' storage"
  unfolding patchTask_def strip_client_update[OF assms] by (rule refl)

lemma postTask_strip:
  assumes "k \<notin> set clientTaskKeys"
  shows "postTask newDate s (body(k := v)) newId now storage = postTask newDate s body newId now storage"
  unfolding postTask_def strip_client_task[OF assms] by (rule refl)

lemma postTask_created:
  assumes "fst (postTask newDate s body newId now storage) = (201, TaskJson t)"
  shows "\<exists>insertTask. createTask insertTask newId now storage = (t, snd (postTask newDate s body newId now storage))"
  using assms
  by (auto simp: postTask_def Let_def split: option.splits jsvalue.splits prod.splits)

lemma clientUpdate_ok:
  "clientUpdateTaskSchema_parse body = Some v \<longleftrightarrow>
     z_optional z_string (body ''title'') \<noteq> None
   \<and> z_optional (z_nullable z_string) (body ''description'') \<noteq> None
   \<and> z_optional z_string (body ''domain'') \<noteq> None
   \<and> z_optional z_string (body ''priority'') \<noteq> None
   \<and> z_optional (z_number (1 / 2) 24 (1 / 2)) (body ''estimatedHours'') \<noteq> None
   \<and> z_optional (z_number (1 / 10) 100 (1 / 10)) (body ''actualHours'') \<noteq> None
   \<and> z_optional z_boolean (body ''isCompleted'') \<noteq> None
   \<and> z_optional z_string (body ''dueDate'') \<noteq> None
   \<and> v = body |` set clientUpdateTaskKeys"
  unfolding clientUpdateTaskSchema_parse_def
  by (auto simp: bind_eq_Some_conv)

lemma updateTaskSchema_ok:
  "updateTaskSchema_parse obj \<noteq> None \<longleftrightarrow>
     z_optional z_string (obj ''title'') \<noteq> None
   \<and> z_optional (z_nullable z_string) (obj ''description'') \<noteq> None
   \<and> z_optional z_string (obj ''domain'') \<noteq> None
   \<and> z_optional z_string (obj ''priority'') \<noteq> None
   \<and> z_optional z_string (obj ''estimatedHours'') \<noteq> None
   \<and> z_optional (z_nullable z_string) (obj ''actualHours'') \<noteq> None
   \<and> z_optional z_boolean (obj ''isCompleted'') \<noteq> None
   \<and> z_optional (z_nullable z_date) (obj ''completedAt'') \<noteq> None
   \<and> z_optional (z_nullable z_date) (obj ''dueDate'') \<noteq> None"
  unfolding updateTaskSchema_parse_def
  by (auto simp: bind_eq_Some_conv)

lemma toStringIfTruthy_string: "z_optional z_string (toStringIfTruthy x) \<noteq> None"
  by (auto simp: toStringIfTruthy_def z_optional_def z_string_def split: option.splits jsvalue.splits)

lemma toStringIfTruthy_nullable: "z_optional (z_nullable z_string) (toStringIfTruthy x) \<noteq> None"
  by (auto simp: toStringIfTruthy_def z_optional_def z_nullable_def z_string_def split: option.splits jsvalue.splits)

lemma toDateIfTruthy_ok:
  assumes "\<forall>s. x = Some (JString s) \<and> s \<noteq> '''' \<longrightarrow> newDate s \<noteq> None"
  shows "z_optional (z_nullable z_date) (toDateIfTruthy newDate x) \<noteq> None"
  using assms
  by (auto simp: toDateIfTruthy_def z_optional_def z_nullable_def z_date_def split: option.splits jsvalue.splits)

lemma completedAt_ok:
  "z_optional (z_nullable z_date) (if c then Some (JDate (Some now)) else None) \<noteq> None"
  by (auto simp: z_optional_def z_nullable_def z_date_def)

lemma second_parse_ok:
  assumes "clientUpdateTaskSchema_parse body = Some v"
    and "\<forall>s. body ''dueDate'' = Some (JString s) \<and> s \<noteq> '''' \<longrightarrow> newDate s \<noteq> None"
  shows "updateTaskSchema_parse (routeUpdateData newDate v now) \<noteq> None"
proof -
  have v: "v = body |` set clientUpdateTaskKeys" and
    ok: "z_optional z_string (body ''title'') \<noteq> None"
     "z_optional (z_nullable z_string) (body ''description'') \<noteq> None"
     "z_optional z_string (body ''domain'') \<noteq> None"
     "z_optional z_string (body ''priority'') \<noteq> None"
     "z_optional z_boolean (body ''isCompleted'') \<noteq> None"
    using assms(1) by (simp_all add: clientUpdate_ok)
  have keys: "v ''title'' = body ''title''" "v ''description'' = body ''description''"
    "v ''domain'' = body ''domain''" "v ''priority'' = body ''priority''"
    "v ''isCompleted'' = body ''isCompleted''" "v ''dueDate'' = body ''dueDate''"
    by (simp_all add: v clientUpdateTaskKeys_def)
  show ?thesis
    unfolding updateTaskSchema_ok routeUpdateData_def
    using ok assms(2)
    by (simp add: keys toStringIfTruthy_string toStringIfTruthy_nullable toDateIfTruthy_ok completedAt_ok)
qed

lemma second_parse_isCompleted:
  assumes "clientUpdateTaskSchema_parse body = Some v"
    and "updateTaskSchema_parse (routeUpdateData newDate v now) = Some u"
  shows "UpdateTask.isCompleted u = (case body ''isCompleted'' of Some (JBoolean b) \<Rightarrow> Some b | _ \<Rightarrow> None)"
    and "UpdateTask.actualHours u = (case body ''actualHours'' of Some (JNumber x) \<Rightarrow> Some (Some (Number_toString x)) | _ \<Rightarrow> None)"
proof -
  have v: "v = body |` set clientUpdateTaskKeys" and
    ok: "z_optional z_boolean (body ''isCompleted'') \<noteq> None"
      "z_optional (z_number (1 / 10) 100 (1 / 10)) (body ''actualHours'') \<noteq> None"
    using assms(1) by (simp_all add: clientUpdate_ok)
  have keys: "v ''isCompleted'' = body ''isCompleted''" "v ''actualHours'' = body ''actualHours''"
    by (simp_all add: v clientUpdateTaskKeys_def)
  from assms(2) have 1: "z_optional z_boolean (v ''isCompleted'') = Some (UpdateTask.isCompleted u)"
    and 2: "z_optional (z_nullable z_string) (toStringIfTruthy (v ''actualHours'')) = Some (UpdateTask.actualHours u)"
    unfolding updateTaskSchema_parse_def routeUpdateData_def
    by (auto simp: bind_eq_Some_conv)
  show "UpdateTask.isCompleted u = (case body ''isCompleted'' of Some (JBoolean b) \<Rightarrow> Some b | _ \<Rightarrow> None)"
    using 1 ok(1) unfolding keys
    by (auto simp: z_optional_def z_boolean_def split: option.splits jsvalue.splits)
  show "UpdateTask.actualHours u = (case body ''actualHours'' of Some (JNumber x) \<Rightarrow> Some (Some (Number_toString x)) | _ \<Rightarrow> None)"
    using 2 ok(2) unfolding keys
    by (auto simp: z_optional_def z_nullable_def z_string_def z_number_def toStringIfTruthy_def split: option.splits jsvalue.splits if_splits)
qed

lemma patchTask_cases:
  "patchTask newDate s taskId body now now' storage =
     (case sessionUser s of
        None \<Rightarrow> ((401, ErrorJson ''Unauthorized''), storage)
      | Some user \<Rightarrow>
          (case getTask taskId storage of
             None \<Rightarrow> ((404, ErrorJson ''Task not found''), storage)
           | Some existingTask \<Rightarrow>
               if Task.userId existingTask \<noteq> user
               then ((404, ErrorJson ''Task not found''), storage)
               else
                 (case clientUpdateTaskSchema_parse body of
                    None \<Rightarrow> ((400, ErrorJson ''Invalid update data''), storage)
                  | Some validatedUpdate \<Rightarrow>
                      if validatedUpdate ''isCompleted'' = Some (JBoolean False)
                         \<and> Task.isCompleted existingTask
                      then ((400, ErrorMessageJson ''Cannot un-complete a task''
                               ''Tasks cannot be marked as incomplete once completed to maintain reward integrity.''),
                            storage)
                      else
                        (case updateTaskSchema_parse (routeUpdateData newDate validatedUpdate now) of
                              None \<Rightarrow> ((400, ErrorJson ''Invalid update data''), storage)
                            | Some update \<Rightarrow>
                                (case updateTask taskId update now' storage of
                                   (None, storage') \<Rightarrow>
                                     ((404, ErrorJson ''Task not found''), storage')
                                 | (Some updatedTask, storage') \<Rightarrow>
                                     ((200, TaskJson updatedTask), storage'))))))"
  unfolding patchTask_def routeUpdateData_def Let_def by (rule refl)

lemma patchTask_keeps_rewards:
  assumes "getTask taskId storage = Some existingTask" "Task.isCompleted existingTask"
  shows "\<exists>t'. getTask taskId (snd (patchTask newDate s taskId body now now' storage)) = Some t'
           \<and> Task.xpReward t' = Task.xpReward existingTask
           \<and> Task.euReward t' = Task.euReward existingTask"
proof -
  have stored: "tasks storage taskId = Some existingTask"
    using assms(1) by (simp add: getTask_def)
  have upd: "\<And>u. \<exists>t'. updateTask taskId u now' storage
                  = (Some t', storage\<lparr>tasks := (tasks storage)(taskId \<mapsto> t')\<rparr>)
              \<and> Task.xpReward t' = Task.xpReward existingTask
              \<and> Task.euReward t' = Task.euReward existingTask"
    using stored assms(2) by (simp add: updateTask_def Let_def calculatedRewards_def)
  have "snd (patchTask newDate s taskId body now now' storage) = storage
      \<or> (\<exists>u. snd (patchTask newDate s taskId body now now' storage)
                 = snd (updateTask taskId u now' storage))"
    by (auto simp: patchTask_cases split: option.splits prod.splits) (metis snd_conv)+
  then show ?thesis
  proof
    assume "snd (patchTask newDate s taskId body now now' storage) = storage"
    then show ?thesis using assms(1) by simp
  next
    assume "\<exists>u. snd (patchTask newDate s taskId body now now' storage)
                 = snd (updateTask taskId u now' storage)"
    then obtain u where p: "snd (patchTask newDate s taskId body now now' storage)
                 = snd (updateTask taskId u now' storage)"
      by blast
    from upd[of u] obtain t' where "updateTask taskId u now' storage
                  = (Some t', storage\<lparr>tasks := (tasks storage)(taskId \<mapsto> t')\<rparr>)"
      "Task.xpReward t' = Task.xpReward existingTask" "Task.euReward t' = Task.euReward existingTask"
      by blast
    then show ?thesis by (simp add: p getTask_def)
  qed
qed

lemma patchTask_complete_again_ok:
  assumes "getTask taskId storage = Some existingTask" "Task.isCompleted existingTask"
    and "body ''isCompleted'' = Some (JBoolean True)"
    and "sessionUser s = Some (Task.userId existingTask)"
    and "clientUpdateTaskSchema_parse body \<noteq> None"
    and "\<forall>str. body ''dueDate'' = Some (JString str) \<and> str \<noteq> '''' \<longrightarrow> newDate str \<noteq> None"
  shows "\<exists>t'. patchTask newDate s taskId body now now' storage
               = ((200, TaskJson t'), storage\<lparr>tasks := (tasks storage)(taskId \<mapsto> t')\<rparr>)
           \<and> Task.xpReward t' = Task.xpReward existingTask
           \<and> Task.euReward t' = Task.euReward existingTask
           \<and> Task.isCompleted t'"
proof -
  from assms(5) obtain v where v: "clientUpdateTaskSchema_parse body = Some v" by blast
  then have vc: "v ''isCompleted'' = Some (JBoolean True)"
    using assms(3) by (simp add: clientUpdate_ok clientUpdateTaskKeys_def)
  from second_parse_ok[OF v assms(6)] obtain u
    where u: "updateTaskSchema_parse (routeUpdateData newDate v now) = Some u" by blast
  have uc: "UpdateTask.isCompleted u = Some True"
    using second_parse_isCompleted(1)[OF v u] assms(3) by simp
  have stored: "tasks storage taskId = Some existingTask"
    using assms(1) by (simp add: getTask_def)
  have "\<exists>t'. updateTask taskId u now' storage
                  = (Some t', storage\<lparr>tasks := (tasks storage)(taskId \<mapsto> t')\<rparr>)
              \<and> Task.xpReward t' = Task.xpReward existingTask
              \<and> Task.euReward t' = Task.euReward existingTask \<and> Task.isCompleted t'"
    using stored assms(2) uc by (simp add: updateTask_def Let_def calculatedRewards_def spread_def)
  then show ?thesis
    using assms(1,4) v vc u by (auto simp: patchTask_cases)
qed

lemma patchTask_complete_default_hours:
  assumes "getTask taskId storage = Some existingTask"
    and "\<not> Task.isCompleted existingTask"
    and "body ''isCompleted'' = Some (JBoolean True)"
    and "body ''actualHours'' = None"
    and "sessionUser s = Some (Task.userId existingTask)"
    and "clientUpdateTaskSchema_parse body \<noteq> None"
    and "\<forall>str. body ''dueDate'' = Some (JString str) \<and> str \<noteq> '''' \<longrightarrow> newDate str \<noteq> None"
  shows "\<exists>t'. patchTask newDate s taskId body now now' storage
               = ((200, TaskJson t'), storage\<lparr>tasks := (tasks storage)(taskId \<mapsto> t')\<rparr>)
           \<and> Task.xpReward t' = calculateXPReward (Task.priority existingTask)
                                   (parseFloat (Task.estimatedHours existingTask))
           \<and> Task.euReward t' = calculateEUReward (Task.domain existingTask)
                                   (parseFloat (Task.estimatedHours existingTask))
           \<and> Task.actualHours t' = Some (Task.estimatedHours existingTask)
           \<and> Task.isCompleted t' \<and> Task.completedAt t' = Some now"
proof -
  from assms(6) obtain v where v: "clientUpdateTaskSchema_parse body = Some v" by blast
  then have vc: "v ''isCompleted'' = Some (JBoolean True)"
    using assms(3) by (simp add: clientUpdate_ok clientUpdateTaskKeys_def)
  from second_parse_ok[OF v assms(7)] obtain u
    where u: "updateTaskSchema_parse (routeUpdateData newDate v now) = Some u" by blast
  have uc: "UpdateTask.isCompleted u = Some True"
    using second_parse_isCompleted(1)[OF v u] assms(3) by simp
  have ua: "UpdateTask.actualHours u = None"
    using second_parse_isCompleted(2)[OF v u] assms(4) by simp
  have ud: "UpdateTask.completedAt u = Some (Some now)"
    using u vc unfolding updateTaskSchema_parse_def routeUpdateData_def
    by (auto simp: bind_eq_Some_conv z_optional_def z_nullable_def z_date_def)
  have stored: "tasks storage taskId = Some existingTask"
    using assms(1) by (simp add: getTask_def)
  have "\<exists>t'. updateTask taskId u now' storage
              = (Some t', storage\<lparr>tasks := (tasks storage)(taskId \<mapsto> t')\<rparr>)
          \<and> Task.xpReward t' = calculateXPReward (Task.priority existingTask)
                                  (parseFloat (Task.estimatedHours existingTask))
          \<and> Task.euReward t' = calculateEUReward (Task.domain existingTask)
                                  (parseFloat (Task.estimatedHours existingTask))
          \<and> Task.actualHours t' = Some (Task.estimatedHours existingTask)
          \<and> Task.isCompleted t' \<and> Task.completedAt t' = Some now"
    using stored assms(2) uc ua ud
    by (simp add: updateTask_def Let_def calculatedRewards_def hoursOrEstimate_def spread_def)
  then show ?thesis
    using assms(1,2,5) v vc u by (auto simp: patchTask_cases)
qed

lemma unknown_priority_default:
  assumes "p \<notin> {''low'', ''medium'', ''high'', ''urgent''}"
    and "p \<notin> set objectPrototypeNames"
  shows "calculateXPReward p hours = Math_round (times (Num 15) hours)"
  using assms by (simp add: calculateXPReward_def getProperty_def basePriorityMultipliers_def)

lemma unknown_domain_default:
  assumes "d \<notin> {''academic'', ''fitness'', ''creative'', ''social'', ''maintenance''}"
    and "d \<notin> set objectPrototypeNames"
  shows "calculateEUReward d hours = Math_round (times (times hours (Num 1)) (Num 10))"
  using assms by (simp add: calculateEUReward_def getProperty_def domainMultipliers_def)

lemma example_storage:
  "getTask ''t1'' (storageOf openTask) = Some openTask
   \<and> getTask ''t1'' (storageOf completedTask) = Some completedTask
   \<and> tasks (storageOf openTask) ''t1'' = Some openTask
   \<and> Task.isCompleted completedTask \<and> \<not> Task.isCompleted openTask
   \<and> Task.userId completedTask = ''u1''
   \<and> sessionUser (Some ''u1'') = Some ''u1''"
  by (simp add: getTask_def storageOf_def openTask_def completedTask_def sessionUser_def)

section \<open>Rewards and routes: the claims\<close>

text \<open>
  Claim C4.  When the stored task is completed, a \<open>PATCH\<close> request whose body carries
  \<open>isCompleted: false\<close> changes nothing in the storage and is answered with an error
  status; when the request comes from the task's owner and its body passes validation,
  the answer is status 400 with the reward-integrity message.
\<close>

theorem patchTask_uncomplete_rejected:
  assumes "getTask taskId storage = Some existingTask"
    and "Task.isCompleted existingTask"
    and "body ''isCompleted'' = Some (JBoolean False)"
  shows "snd (patchTask newDate s taskId body now now' storage) = storage
     \<and> fst (fst (patchTask newDate s taskId body now now' storage)) \<in> {400, 401, 404}
     \<and> (sessionUser s = Some (Task.userId existingTask)
           \<and> clientUpdateTaskSchema_parse body \<noteq> None
         \<longrightarrow> fst (patchTask newDate s taskId body now now' storage)
            = (400, ErrorMessageJson ''Cannot un-complete a task''
                 ''Tasks cannot be marked as incomplete once completed to maintain reward integrity.''))"
proof -
  have v: "\<And>v. clientUpdateTaskSchema_parse body = Some v
             \<Longrightarrow> v ''isCompleted'' = Some (JBoolean False)"
    using assms(3) by (simp add: clientUpdate_ok clientUpdateTaskKeys_def)
  show ?thesis
    using assms(1,2) v
    by (auto simp: patchTask_def split: option.splits)
qed

theorem patchTask_uncomplete_rejected_witness:
  "getTask ''t1'' (storageOf completedTask) = Some completedTask
   \<and> Task.isCompleted completedTask
   \<and> [''isCompleted'' \<mapsto> JBoolean False] ''isCompleted'' = Some (JBoolean False)
   \<and> sessionUser (Some ''u1'') = Some (Task.userId completedTask)
   \<and> clientUpdateTaskSchema_parse [''isCompleted'' \<mapsto> JBoolean False] \<noteq> None
   \<and> patchTask noDates (Some ''u1'') ''t1'' [''isCompleted'' \<mapsto> JBoolean False] 3000 3001
         (storageOf completedTask)
       = ((400, ErrorMessageJson ''Cannot un-complete a task''
             ''Tasks cannot be marked as incomplete once completed to maintain reward integrity.''),
          storageOf completedTask)"
proof -
  have h1: "getTask ''t1'' (storageOf completedTask) = Some completedTask"
    and h2: "Task.isCompleted completedTask"
    and h4: "sessionUser (Some ''u1'') = Some (Task.userId completedTask)"
    using example_storage by simp_all
  have h3: "[''isCompleted'' \<mapsto> JBoolean False] ''isCompleted'' = Some (JBoolean False)"
    by simp
  have h5: "clientUpdateTaskSchema_parse [''isCompleted'' \<mapsto> JBoolean False] \<noteq> None"
    by (simp add: clientUpdate_ok z_optional_def z_boolean_def)
  from patchTask_uncomplete_rejected
         [where body = "[''isCompleted'' \<mapsto> JBoolean False]" and newDate = noDates
            and s = "Some ''u1''" and now = 3000 and now' = 3001, OF h1 h2 h3] h4 h5
  have "patchTask noDates (Some ''u1'') ''t1'' [''isCompleted'' \<mapsto> JBoolean False] 3000 3001
         (storageOf completedTask)
       = ((400, ErrorMessageJson ''Cannot un-complete a task''
             ''Tasks cannot be marked as incomplete once completed to maintain reward integrity.''),
          storageOf completedTask)"
    by (simp add: prod_eq_iff)
  with h1 h2 h3 h4 h5 show ?thesis by blast
qed

text \<open>
  Claim C5.  When the stored task is completed, a \<open>PATCH\<close> request whose body carries
  \<open>isCompleted: true\<close> computes no rewards anew and leaves the stored \<open>xpReward\<close> and
  \<open>euReward\<close> as they were, whatever else the request changes; when the request
  comes from the owner, passes validation and names no unreadable due date, it is
  answered with status 200 and the task, still completed, with the same rewards.
\<close>

theorem patchTask_double_completion:
  assumes "getTask taskId storage = Some existingTask"
    and "Task.isCompleted existingTask"
    and "body ''isCompleted'' = Some (JBoolean True)"
  shows "calculatedRewards existingTask updateData = None
     \<and> (\<exists>t'. getTask taskId (snd (patchTask newDate s taskId body now now' storage)) = Some t'
            \<and> Task.xpReward t' = Task.xpReward existingTask
            \<and> Task.euReward t' = Task.euReward existingTask)
     \<and> (sessionUser s = Some (Task.userId existingTask)
           \<and> clientUpdateTaskSchema_parse body \<noteq> None
           \<and> (\<forall>str. body ''dueDate'' = Some (JString str) \<and> str \<noteq> ''''
                  \<longrightarrow> newDate str \<noteq> None)
         \<longrightarrow> (\<exists>t'. patchTask newDate s taskId body now now' storage
                     = ((200, TaskJson t'),
                        storage\<lparr>tasks := (tasks storage)(taskId \<mapsto> t')\<rparr>)
                  \<and> Task.xpReward t' = Task.xpReward existingTask
                  \<and> Task.euReward t' = Task.euReward existingTask
                  \<and> Task.isCompleted t'))"
proof (intro conjI impI)
  show "calculatedRewards existingTask updateData = None"
    using assms(2) by (simp add: calculatedRewards_def)
next
  show "\<exists>t'. getTask taskId (snd (patchTask newDate s taskId body now now' storage)) = Some t'
            \<and> Task.xpReward t' = Task.xpReward existingTask
            \<and> Task.euReward t' = Task.euReward existingTask"
    using assms(1,2) by (rule patchTask_keeps_rewards)
next
  assume "sessionUser s = Some (Task.userId existingTask)
           \<and> clientUpdateTaskSchema_parse body \<noteq> None
           \<and> (\<forall>str. body ''dueDate'' = Some (JString str) \<and> str \<noteq> ''''
                  \<longrightarrow> newDate str \<noteq> None)"
  then show "\<exists>t'. patchTask newDate s taskId body now now' storage
                     = ((200, TaskJson t'),
                        storage\<lparr>tasks := (tasks storage)(taskId \<mapsto> t')\<rparr>)
                  \<and> Task.xpReward t' = Task.xpReward existingTask
                  \<and> Task.euReward t' = Task.euReward existingTask
                  \<and> Task.isCompleted t'"
    using assms
      patchTask_complete_again_ok
        [where taskId = taskId and storage = storage and existingTask = existingTask
           and body = body and s = s and newDate = newDate and now = now and now' = now']
    by blast
qed

theorem patchTask_double_completion_witness:
  "getTask ''t1'' (storageOf completedTask) = Some completedTask
   \<and> Task.isCompleted completedTask
   \<and> [''isCompleted'' \<mapsto> JBoolean True] ''isCompleted'' = Some (JBoolean True)
   \<and> fst (fst (patchTask noDates (Some ''u1'') ''t1'' [''isCompleted'' \<mapsto> JBoolean True]
                 3000 3001 (storageOf completedTask))) = 200
   \<and> (\<exists>t'. getTask ''t1''
                (snd (patchTask noDates (Some ''u1'') ''t1'' [''isCompleted'' \<mapsto> JBoolean True]
                        3000 3001 (storageOf completedTask))) = Some t'
           \<and> Task.xpReward t' = Num 50 \<and> Task.euReward t' = Num 50)"
proof -
  have h1: "getTask ''t1'' (storageOf completedTask) = Some completedTask"
    and h2: "Task.isCompleted completedTask"
    and h4: "sessionUser (Some ''u1'') = Some (Task.userId completedTask)"
    using example_storage by simp_all
  have h3: "[''isCompleted'' \<mapsto> JBoolean True] ''isCompleted'' = Some (JBoolean True)"
    by simp
  have h5: "clientUpdateTaskSchema_parse [''isCompleted'' \<mapsto> JBoolean True] \<noteq> None"
    by (simp add: clientUpdate_ok z_optional_def z_boolean_def)
  have h6: "\<forall>str. [''isCompleted'' \<mapsto> JBoolean True] ''dueDate'' = Some (JString str)
              \<and> str \<noteq> '''' \<longrightarrow> noDates str \<noteq> None"
    by simp
  have r: "Task.xpReward completedTask = Num 50 \<and> Task.euReward completedTask = Num 50"
    by (simp add: completedTask_def)
  note w = patchTask_double_completion
             [where body = "[''isCompleted'' \<mapsto> JBoolean True]" and newDate = noDates
                and s = "Some ''u1''" and now = 3000 and now' = 3001
                and updateData = completeUpdate, OF h1 h2 h3]
  from w h4 h5 h6 have "fst (fst (patchTask noDates (Some ''u1'') ''t1''
         [''isCompleted'' \<mapsto> JBoolean True] 3000 3001 (storageOf completedTask))) = 200"
    by auto
  moreover from w r have "\<exists>t'. getTask ''t1''
                (snd (patchTask noDates (Some ''u1'') ''t1'' [''isCompleted'' \<mapsto> JBoolean True]
                        3000 3001 (storageOf completedTask))) = Some t'
           \<and> Task.xpReward t' = Num 50 \<and> Task.euReward t' = Num 50"
    by auto
  ultimately show ?thesis using h1 h2 h3 by blast
qed

text \<open>
  Claim C6.  The rewards are a function of the priority, the domain and the hours
  alone: whenever \<open>updateTask\<close> computes rewards, they are the two formulas applied to
  the stored priority and domain and to the number read from the hours string, with
  no other input.  For priority high, domain fitness and 2 hours the formulas give
  50 XP and 50 EU.
\<close>

theorem reward_deterministic_example:
  "calculateXPReward ''high'' (Num 2) = Num 50
   \<and> calculateEUReward ''fitness'' (Num 2) = Num 50
   \<and> (calculatedRewards existingTask updateData = Some (xp, eu, hours)
        \<longrightarrow> xp = calculateXPReward (Task.priority existingTask) (parseFloat hours)
          \<and> eu = calculateEUReward (Task.domain existingTask) (parseFloat hours))"
proof (intro conjI impI)
  show "calculateXPReward ''high'' (Num 2) = Num 50"
    by code_simp
  show "calculateEUReward ''fitness'' (Num 2) = Num 50"
    by code_simp
next
  assume "calculatedRewards existingTask updateData = Some (xp, eu, hours)"
  then show "xp = calculateXPReward (Task.priority existingTask) (parseFloat hours)"
    and "eu = calculateEUReward (Task.domain existingTask) (parseFloat hours)"
    by (auto simp: calculatedRewards_def Let_def split: if_splits)
qed

text \<open>Completing the open task (priority high, domain fitness, estimate 2 hours).\<close>

theorem reward_deterministic_example_witness:
  "calculatedRewards openTask completeUpdate = Some (Num 50, Num 50, ''2'')
   \<and> Task.priority openTask = ''high'' \<and> Task.domain openTask = ''fitness''
   \<and> parseFloat ''2'' = Num 2
   \<and> Num 50 = calculateXPReward (Task.priority openTask) (parseFloat ''2'')
   \<and> Num 50 = calculateEUReward (Task.domain openTask) (parseFloat ''2'')"
proof -
  have c: "calculatedRewards openTask completeUpdate = Some (Num 50, Num 50, ''2'')"
    by code_simp
  have p: "Task.priority openTask = ''high'' \<and> Task.domain openTask = ''fitness''"
    by (simp add: openTask_def)
  have f: "parseFloat ''2'' = Num 2"
    by code_simp
  from reward_deterministic_example[of openTask completeUpdate "Num 50" "Num 50" "''2''"] c
  have "Num 50 = calculateXPReward (Task.priority openTask) (parseFloat ''2'')
      \<and> Num 50 = calculateEUReward (Task.domain openTask) (parseFloat ''2'')"
    by blast
  with c p f show ?thesis by blast
qed

text \<open>
  Claim C7.  When an update completes a task that is not completed and carries no
  \<open>actualHours\<close>, both rewards are computed from the stored \<open>estimatedHours\<close>, and
  that string is stored as the task's \<open>actualHours\<close>.  This holds of \<open>updateTask\<close>
  for every such update, and of the \<open>PATCH\<close> handler for the owner's valid request
  whose body has \<open>isCompleted: true\<close> and no \<open>actualHours\<close>.
\<close>

theorem updateTask_default_hours:
  assumes "tasks storage taskId = Some existingTask"
    and "\<not> Task.isCompleted existingTask"
  shows "(UpdateTask.isCompleted updateData = Some True
          \<and> UpdateTask.actualHours updateData = None
        \<longrightarrow> (\<exists>t'. updateTask taskId updateData now storage
                    = (Some t', storage\<lparr>tasks := (tasks storage)(taskId \<mapsto> t')\<rparr>)
                \<and> Task.xpReward t' = calculateXPReward (Task.priority existingTask)
                                        (parseFloat (Task.estimatedHours existingTask))
                \<and> Task.euReward t' = calculateEUReward (Task.domain existingTask)
                                        (parseFloat (Task.estimatedHours existingTask))
                \<and> Task.actualHours t' = Some (Task.estimatedHours existingTask)))
     \<and> (body ''isCompleted'' = Some (JBoolean True) \<and> body ''actualHours'' = None
          \<and> sessionUser s = Some (Task.userId existingTask)
          \<and> clientUpdateTaskSchema_parse body \<noteq> None
          \<and> (\<forall>str. body ''dueDate'' = Some (JString str) \<and> str \<noteq> ''''
                 \<longrightarrow> newDate str \<noteq> None)
        \<longrightarrow> (\<exists>t'. patchTask newDate s taskId body now' now storage
                    = ((200, TaskJson t'),
                       storage\<lparr>tasks := (tasks storage)(taskId \<mapsto> t')\<rparr>)
                \<and> Task.xpReward t' = calculateXPReward (Task.priority existingTask)
                                        (parseFloat (Task.estimatedHours existingTask))
                \<and> Task.euReward t' = calculateEUReward (Task.domain existingTask)
                                        (parseFloat (Task.estimatedHours existingTask))
                \<and> Task.actualHours t' = Some (Task.estimatedHours existingTask)))"
proof (intro conjI impI)
  assume "UpdateTask.isCompleted updateData = Some True
          \<and> UpdateTask.actualHours updateData = None"
  with assms show "\<exists>t'. updateTask taskId updateData now storage
                    = (Some t', storage\<lparr>tasks := (tasks storage)(taskId \<mapsto> t')\<rparr>)
                \<and> Task.xpReward t' = calculateXPReward (Task.priority existingTask)
                                        (parseFloat (Task.estimatedHours existingTask))
                \<and> Task.euReward t' = calculateEUReward (Task.domain existingTask)
                                        (parseFloat (Task.estimatedHours existingTask))
                \<and> Task.actualHours t' = Some (Task.estimatedHours existingTask)"
    by (simp add: updateTask_def Let_def calculatedRewards_def hoursOrEstimate_def)
next
  assume h: "body ''isCompleted'' = Some (JBoolean True) \<and> body ''actualHours'' = None
          \<and> sessionUser s = Some (Task.userId existingTask)
          \<and> clientUpdateTaskSchema_parse body \<noteq> None
          \<and> (\<forall>str. body ''dueDate'' = Some (JString str) \<and> str \<noteq> ''''
                 \<longrightarrow> newDate str \<noteq> None)"
  have g: "getTask taskId storage = Some existingTask"
    using assms(1) by (simp add: getTask_def)
  from h assms(2) g
    patchTask_complete_default_hours
      [where taskId = taskId and storage = storage and existingTask = existingTask
         and body = body and s = s and newDate = newDate and now = now' and now' = now]
  show "\<exists>t'. patchTask newDate s taskId body now' now storage
                    = ((200, TaskJson t'),
                       storage\<lparr>tasks := (tasks storage)(taskId \<mapsto> t')\<rparr>)
                \<and> Task.xpReward t' = calculateXPReward (Task.priority existingTask)
                                        (parseFloat (Task.estimatedHours existingTask))
                \<and> Task.euReward t' = calculateEUReward (Task.domain existingTask)
                                        (parseFloat (Task.estimatedHours existingTask))
                \<and> Task.actualHours t' = Some (Task.estimatedHours existingTask)"
    by blast
qed

text \<open>Completing the open task, whose estimate is 2 hours, through the storage and
  through the handler.\<close>

theorem updateTask_default_hours_witness:
  "tasks (storageOf openTask) ''t1'' = Some openTask
   \<and> \<not> Task.isCompleted openTask
   \<and> UpdateTask.isCompleted completeUpdate = Some True
   \<and> UpdateTask.actualHours completeUpdate = None
   \<and> Task.estimatedHours openTask = ''2''
   \<and> [''isCompleted'' \<mapsto> JBoolean True] ''actualHours'' = None
   \<and> (\<exists>t'. fst (updateTask ''t1'' completeUpdate 5000 (storageOf openTask)) = Some t'
          \<and> Task.xpReward t' = Num 50 \<and> Task.euReward t' = Num 50
          \<and> Task.actualHours t' = Some ''2'')
   \<and> (\<exists>t'. fst (patchTask noDates (Some ''u1'') ''t1'' [''isCompleted'' \<mapsto> JBoolean True]
                   4000 5000 (storageOf openTask)) = (200, TaskJson t')
          \<and> Task.xpReward t' = Num 50 \<and> Task.euReward t' = Num 50
          \<and> Task.actualHours t' = Some ''2'')"
proof -
  have h1: "tasks (storageOf openTask) ''t1'' = Some openTask"
    and h2: "\<not> Task.isCompleted openTask"
    using example_storage by simp_all
  have h3: "UpdateTask.isCompleted completeUpdate = Some True
      \<and> UpdateTask.actualHours completeUpdate = None"
    by (simp add: completeUpdate_def)
  have e: "Task.estimatedHours openTask = ''2''"
    by (simp add: openTask_def)
  have b: "[''isCompleted'' \<mapsto> JBoolean True] ''isCompleted'' = Some (JBoolean True)
      \<and> [''isCompleted'' \<mapsto> JBoolean True] ''actualHours'' = None
      \<and> sessionUser (Some ''u1'') = Some (Task.userId openTask)
      \<and> clientUpdateTaskSchema_parse [''isCompleted'' \<mapsto> JBoolean True] \<noteq> None
      \<and> (\<forall>str. [''isCompleted'' \<mapsto> JBoolean True] ''dueDate'' = Some (JString str)
               \<and> str \<noteq> '''' \<longrightarrow> noDates str \<noteq> None)"
    by (simp add: clientUpdate_ok z_optional_def z_boolean_def sessionUser_def openTask_def)
  have r: "calculateXPReward (Task.priority openTask) (parseFloat (Task.estimatedHours openTask))
             = Num 50
         \<and> calculateEUReward (Task.domain openTask) (parseFloat (Task.estimatedHours openTask))
             = Num 50"
    by code_simp
  note w = updateTask_default_hours
             [where updateData = completeUpdate and now = 5000 and now' = 4000
                and body = "[''isCompleted'' \<mapsto> JBoolean True]" and s = "Some ''u1''"
                and newDate = noDates, OF h1 h2]
  from w h3 r e
  have 1: "\<exists>t'. fst (updateTask ''t1'' completeUpdate 5000 (storageOf openTask)) = Some t'
          \<and> Task.xpReward t' = Num 50 \<and> Task.euReward t' = Num 50
          \<and> Task.actualHours t' = Some ''2''"
    by auto
  from w b r e
  have 2: "\<exists>t'. fst (patchTask noDates (Some ''u1'') ''t1'' [''isCompleted'' \<mapsto> JBoolean True]
                   4000 5000 (storageOf openTask)) = (200, TaskJson t')
          \<and> Task.xpReward t' = Num 50 \<and> Task.euReward t' = Num 50
          \<and> Task.actualHours t' = Some ''2''"
    by auto
  from h1 h2 h3 e b 1 2 show ?thesis by blast
qed

text \<open>
  Claim C8, at the input where the code departs from it.  The priority
  \<open>constructor\<close> is outside the four priorities, yet the table lookup finds the
  member that every object inherits, the fallback to 15 is not taken, and the product
  is \<open>NaN\<close>, where base 15 gives 30 for 2 hours.  The domain table behaves alike.  For
  a key that no object inherits the fallback works (\<open>unknown_priority_default\<close>,
  \<open>unknown_domain_default\<close>).
\<close>

theorem calculateXPReward_inherited_key:
  "calculateXPReward ''constructor'' (Num 2) = NaN
   \<and> Math_round (times (Num 15) (Num 2)) = Num 30
   \<and> calculateEUReward ''constructor'' (Num 2) = NaN
   \<and> Math_round (times (times (Num 2) (Num 1)) (Num 10)) = Num 20"
  by code_simp

text \<open>
  Claim C9.  \<open>createTask\<close> stores the new task with both rewards 0, not completed, with
  no completion time and no actual hours, whatever the insert data hold; so does every
  create request that is answered with 201, and the answer does not depend on reward or
  completion keys in the request body.  The answer to an update request does not
  depend on the keys \<open>xpReward\<close> and \<open>euReward\<close> of its body: the schema strips them.
\<close>

theorem createTask_forces_rewards_and_update_strips:
  "Task.xpReward (fst (createTask insertTask newId now storage)) = Num 0
   \<and> Task.euReward (fst (createTask insertTask newId now storage)) = Num 0
   \<and> \<not> Task.isCompleted (fst (createTask insertTask newId now storage))
   \<and> Task.completedAt (fst (createTask insertTask newId now storage)) = None
   \<and> Task.actualHours (fst (createTask insertTask newId now storage)) = None
   \<and> tasks (snd (createTask insertTask newId now storage)) newId
       = Some (fst (createTask insertTask newId now storage))
   \<and> (fst (postTask newDate s body newId now storage) = (201, TaskJson t)
        \<longrightarrow> Task.xpReward t = Num 0 \<and> Task.euReward t = Num 0 \<and> \<not> Task.isCompleted t
          \<and> Task.completedAt t = None \<and> Task.actualHours t = None
          \<and> tasks (snd (postTask newDate s body newId now storage)) newId = Some t)
   \<and> postTask newDate s
        (body(''xpReward'' := x, ''euReward'' := y, ''isCompleted'' := c, ''completedAt'' := d))
        newId now storage
       = postTask newDate s body newId now storage
   \<and> patchTask newDate s taskId (body(''xpReward'' := x, ''euReward'' := y)) now now' storage
       = patchTask newDate s taskId body now now' storage"
proof -
  have created: "Task.xpReward (fst (createTask i newId now storage)) = Num 0
     \<and> Task.euReward (fst (createTask i newId now storage)) = Num 0
     \<and> \<not> Task.isCompleted (fst (createTask i newId now storage))
     \<and> Task.completedAt (fst (createTask i newId now storage)) = None
     \<and> Task.actualHours (fst (createTask i newId now storage)) = None
     \<and> tasks (snd (createTask i newId now storage)) newId
         = Some (fst (createTask i newId now storage))" for i
    by (simp add: createTask_def Let_def)
  have posted: "Task.xpReward t = Num 0 \<and> Task.euReward t = Num 0 \<and> \<not> Task.isCompleted t
          \<and> Task.completedAt t = None \<and> Task.actualHours t = None
          \<and> tasks (snd (postTask newDate s body newId now storage)) newId = Some t"
    if "fst (postTask newDate s body newId now storage) = (201, TaskJson t)"
  proof -
    from postTask_created[OF that] obtain i where
      "createTask i newId now storage = (t, snd (postTask newDate s body newId now storage))"
      by blast
    with created[of i] show ?thesis by simp
  qed
  have k1: "''xpReward'' \<notin> set clientTaskKeys" "''euReward'' \<notin> set clientTaskKeys"
    "''isCompleted'' \<notin> set clientTaskKeys" "''completedAt'' \<notin> set clientTaskKeys"
    by (simp_all add: clientTaskKeys_def)
  have k2: "''xpReward'' \<notin> set clientUpdateTaskKeys" "''euReward'' \<notin> set clientUpdateTaskKeys"
    by (simp_all add: clientUpdateTaskKeys_def)
  have post: "postTask newDate s
        (body(''xpReward'' := x, ''euReward'' := y, ''isCompleted'' := c, ''completedAt'' := d))
        newId now storage
       = postTask newDate s body newId now storage"
    by (simp only: postTask_strip[OF k1(4)] postTask_strip[OF k1(3)] postTask_strip[OF k1(2)]
          postTask_strip[OF k1(1)])
  have patch: "patchTask newDate s taskId (body(''xpReward'' := x, ''euReward'' := y)) now now'
                 storage
       = patchTask newDate s taskId body now now' storage"
    by (simp only: patchTask_strip[OF k2(2)] patchTask_strip[OF k2(1)])
  show ?thesis
    using created[of insertTask] posted post patch by blast
qed

text \<open>A create request that asks for rewards, completion and actual hours.\<close>

theorem createTask_forces_rewards_and_update_strips_witness:
  "createBody ''xpReward'' = Some (JNumber 999)
   \<and> createBody ''isCompleted'' = Some (JBoolean True)
   \<and> createBody ''actualHours'' = Some (JString ''7'')
   \<and> fst (postTask noDates (Some ''u1'') createBody ''t1'' 1000 emptyStorage)
       = (201, TaskJson openTask)
   \<and> Task.xpReward openTask = Num 0 \<and> Task.euReward openTask = Num 0
   \<and> \<not> Task.isCompleted openTask \<and> Task.actualHours openTask = None
   \<and> tasks (snd (postTask noDates (Some ''u1'') createBody ''t1'' 1000 emptyStorage)) ''t1''
       = Some openTask"
proof -
  have b: "createBody ''xpReward'' = Some (JNumber 999)
      \<and> createBody ''isCompleted'' = Some (JBoolean True)
      \<and> createBody ''actualHours'' = Some (JString ''7'')"
    by (simp add: createBody_def)
  have r: "fst (postTask noDates (Some ''u1'') createBody ''t1'' 1000 emptyStorage)
             = (201, TaskJson openTask)"
    by code_simp
  from createTask_forces_rewards_and_update_strips
         [where newDate = noDates and s = "Some ''u1''" and body = createBody
            and newId = "''t1''" and now = 1000 and storage = emptyStorage and t = openTask] r
  have "Task.xpReward openTask = Num 0 \<and> Task.euReward openTask = Num 0
      \<and> \<not> Task.isCompleted openTask \<and> Task.actualHours openTask = None
      \<and> tasks (snd (postTask noDates (Some ''u1'') createBody ''t1'' 1000 emptyStorage)) ''t1''
          = Some openTask"
    by blast
  with b r show ?thesis by blast
qed

section \<open>Week view: the claim\<close>

text \<open>
  Claim C10.  In the week view, a task with a due date on the displayed day is among
  the timed tasks exactly when the hour of its due date is between 6 and 23, and
  among the all-day tasks exactly when it is not; every task item that enters the
  allocator comes from a task whose due hour is between 6 and 23, and the allocator
  places exactly the timed items.
\<close>

theorem weekView_timed_task_window:
  "(t \<in> set taskList \<and> Task.dueDate t = Some d \<and> toDateString d = toDateString date
      \<longrightarrow> (t \<in> set (timedTasks taskList date) \<longleftrightarrow> 6 \<le> getHours d \<and> getHours d \<le> 23)
        \<and> (t \<in> set (allDayTasks taskList date) \<longleftrightarrow> getHours d < 6 \<or> 23 < getHours d))
   \<and> (x \<in> set (timedItems events taskList date) \<and> type x = task
      \<longrightarrow> (\<exists>t' d'. t' \<in> set taskList \<and> x = taskItem t' \<and> Task.dueDate t' = Some d'
             \<and> toDateString d' = toDateString date
             \<and> 6 \<le> getHours d' \<and> getHours d' \<le> 23))
   \<and> map item (timedItemsWithLanes events taskList date)
       = sort_key startTime (timedItems events taskList date)"
proof (intro conjI impI)
  assume "t \<in> set taskList \<and> Task.dueDate t = Some d \<and> toDateString d = toDateString date"
  then show "t \<in> set (timedTasks taskList date) \<longleftrightarrow> 6 \<le> getHours d \<and> getHours d \<le> 23"
    and "t \<in> set (allDayTasks taskList date) \<longleftrightarrow> getHours d < 6 \<or> 23 < getHours d"
    by (auto simp: timedTasks_def allDayTasks_def dayTasks_def START_HOUR_def END_HOUR_def)
next
  assume "x \<in> set (timedItems events taskList date) \<and> type x = task"
  then have "x \<in> taskItem ` set (timedTasks taskList date)"
    by (auto simp: timedItems_def eventItem_def)
  then obtain t' where "x = taskItem t'" "t' \<in> set (timedTasks taskList date)"
    by blast
  then show "\<exists>t' d'. t' \<in> set taskList \<and> x = taskItem t' \<and> Task.dueDate t' = Some d'
             \<and> toDateString d' = toDateString date
             \<and> 6 \<le> getHours d' \<and> getHours d' \<le> 23"
    by (auto simp: timedTasks_def dayTasks_def START_HOUR_def END_HOUR_def
             split: option.splits)
next
  show "map item (timedItemsWithLanes events taskList date)
       = sort_key startTime (timedItems events taskList date)"
    by (simp add: timedItemsWithLanes_def item_allocateLanes)
qed

text \<open>Two tasks due on day 0, at 5:30 and at 9:00.\<close>

theorem weekView_timed_task_window_witness:
  "dueAt (minutes 330) \<in> set [dueAt (minutes 330), dueAt (minutes 540)]
   \<and> Task.dueDate (dueAt (minutes 330)) = Some (minutes 330)
   \<and> toDateString (minutes 330) = toDateString 0
   \<and> getHours (minutes 330) = 5
   \<and> dueAt (minutes 330) \<notin> set (timedTasks [dueAt (minutes 330), dueAt (minutes 540)] 0)
   \<and> dueAt (minutes 330) \<in> set (allDayTasks [dueAt (minutes 330), dueAt (minutes 540)] 0)
   \<and> taskItem (dueAt (minutes 540))
        \<in> set (timedItems [] [dueAt (minutes 330), dueAt (minutes 540)] 0)
   \<and> type (taskItem (dueAt (minutes 540))) = task
   \<and> getHours (minutes 540) = 9"
proof -
  have h: "dueAt (minutes 330) \<in> set [dueAt (minutes 330), dueAt (minutes 540)]
      \<and> Task.dueDate (dueAt (minutes 330)) = Some (minutes 330)
      \<and> toDateString (minutes 330) = toDateString 0"
    by (simp add: dueAt_def toDateString_def minutes_def)
  have g: "getHours (minutes 330) = 5 \<and> getHours (minutes 540) = 9"
    by (simp add: getHours_def minutes_def)
  have i: "taskItem (dueAt (minutes 540))
        \<in> set (timedItems [] [dueAt (minutes 330), dueAt (minutes 540)] 0)
      \<and> type (taskItem (dueAt (minutes 540))) = task"
    by (simp add: timedItems_def timedTasks_def dayTasks_def dayEvents_def dueAt_def
          toDateString_def getHours_def minutes_def START_HOUR_def END_HOUR_def taskItem_def)
  from weekView_timed_task_window
         [where t = "dueAt (minutes 330)" and d = "minutes 330" and date = 0
            and taskList = "[dueAt (minutes 330), dueAt (minutes 540)]"] h g
  have "dueAt (minutes 330) \<notin> set (timedTasks [dueAt (minutes 330), dueAt (minutes 540)] 0)
      \<and> dueAt (minutes 330) \<in> set (allDayTasks [dueAt (minutes 330), dueAt (minutes 540)] 0)"
    by simp
  with h g i show ?thesis by blast
qed

end
